theory Spec2Isabelle
  imports Main "HOL-Library.Word"
begin

section \<open>JavaScript strings\<close>

text \<open>
  A JavaScript string is a sequence of UTF-16 code units; \<open>length\<close>, \<open>startsWith\<close>,
  \<open>endsWith\<close>, \<open>includes\<close>, \<open>trim\<close> and the character classes of a regular expression
  without the \<open>u\<close> flag all work on code units. String literals of the source are ASCII
  and are written \<open>js ''...''\<close>. Messages returned to the caller are kept as plain
  \<open>string\<close>s: only their presence and their text matter.
\<close>

type_synonym jschar = "16 word"
type_synonym jsstring = "jschar list"

definition js :: "string \<Rightarrow> jsstring" where
  "js s = map (\<lambda>c. of_nat (of_char c)) s"

definition hyphen :: jschar where
  "hyphen = 45"

text \<open>
  The class \<open>\s\<close> of a regular expression and the characters removed by \<open>trim\<close> are the
  same set: WhiteSpace (TAB, VT, FF, SP, NBSP, ZWNBSP and the other space separators) and
  LineTerminator (LF, CR, LS, PS). Each is a single code unit.
\<close>

definition isWhiteSpace :: "jschar \<Rightarrow> bool" where
  "isWhiteSpace c =
     ((9 \<le> c \<and> c \<le> 13) \<or> c = 32 \<or> c = 160 \<or> c = 5760 \<or> (8192 \<le> c \<and> c \<le> 8202)
      \<or> c = 8232 \<or> c = 8233 \<or> c = 8239 \<or> c = 8287 \<or> c = 12288 \<or> c = 65279)"

text \<open>The class \<open>\w\<close> is \<open>[A-Za-z0-9_]\<close>.\<close>

definition isUpperAscii :: "jschar \<Rightarrow> bool" where
  "isUpperAscii c = (65 \<le> c \<and> c \<le> 90)"

definition isLowerAscii :: "jschar \<Rightarrow> bool" where
  "isLowerAscii c = (97 \<le> c \<and> c \<le> 122)"

definition isDigit :: "jschar \<Rightarrow> bool" where
  "isDigit c = (48 \<le> c \<and> c \<le> 57)"

definition isWordChar :: "jschar \<Rightarrow> bool" where
  "isWordChar c = (isUpperAscii c \<or> isLowerAscii c \<or> isDigit c \<or> c = 95)"

definition trimStart :: "jsstring \<Rightarrow> jsstring" where
  "trimStart s = dropWhile isWhiteSpace s"

definition trimEnd :: "jsstring \<Rightarrow> jsstring" where
  "trimEnd s = rev (dropWhile isWhiteSpace (rev s))"

definition trim :: "jsstring \<Rightarrow> jsstring" where
  "trim s = trimEnd (trimStart s)"

definition startsWith :: "jsstring \<Rightarrow> jsstring \<Rightarrow> bool" where
  "startsWith s p = (take (length p) s = p)"

definition endsWith :: "jsstring \<Rightarrow> jsstring \<Rightarrow> bool" where
  "endsWith s p = (length p \<le> length s \<and> drop (length s - length p) s = p)"

fun includesStr :: "jsstring \<Rightarrow> jsstring \<Rightarrow> bool" where
  "includesStr [] p = (p = [])"
| "includesStr (c # cs) p = (startsWith (c # cs) p \<or> includesStr cs p)"

text \<open>
  Two built-ins of the platform are not code of the repository and are taken as parameters:
  the URL parser behind \<open>new URL(url)\<close>, which either throws (\<open>None\<close>) or yields a URL
  object, and \<open>String.prototype.toLowerCase\<close>, whose Unicode case mapping is a table of the
  language.
\<close>

record URL =
  protocol :: jsstring
  hostname :: jsstring

record builtins =
  newURL :: "jsstring \<Rightarrow> URL option"
  toLowerCase :: "jsstring \<Rightarrow> jsstring"

text \<open>
  A concrete instance, for evaluating the functions at explicit inputs: lower-casing of
  the ASCII letters, and a parser for plain absolute URLs \<open>scheme://host...\<close>.
\<close>

definition asciiLower :: "jschar \<Rightarrow> jschar" where
  "asciiLower c = (if isUpperAscii c then c + 32 else c)"

definition plainURL :: "jsstring \<Rightarrow> URL option" where
  "plainURL u =
     (let scheme = takeWhile (\<lambda>c. isUpperAscii c \<or> isLowerAscii c) u;
          rest = drop (length scheme) u;
          host = takeWhile (\<lambda>c. c \<noteq> 47 \<and> c \<noteq> 63 \<and> c \<noteq> 35) (drop 3 rest)
      in if scheme \<noteq> [] \<and> startsWith rest (js ''://'') \<and> host \<noteq> []
         then Some \<lparr>protocol = map asciiLower scheme @ js '':'', hostname = map asciiLower host\<rparr>
         else None)"

definition plainBuiltins :: builtins where
  "plainBuiltins = \<lparr>newURL = plainURL, toLowerCase = map asciiLower\<rparr>"

section \<open>Validator (src/lib/validation.ts)\<close>

text \<open>
  Each validator returns \<open>string | null\<close>: \<open>None\<close> is \<open>null\<close> (valid), \<open>Some msg\<close> the
  message. \<open>!s\<close> on a string is true exactly for the empty string.
\<close>

definition isSlugChar :: "jschar \<Rightarrow> bool" where
  "isSlugChar c = (isLowerAscii c \<or> isDigit c \<or> c = hyphen)"

text \<open>\<open>/^[a-z0-9-]+$/.test(slug)\<close>: one or more characters, all of the class.\<close>

definition slugPattern :: "jsstring \<Rightarrow> bool" where
  "slugPattern s = (s \<noteq> [] \<and> list_all isSlugChar s)"

definition validateSlug :: "jsstring \<Rightarrow> string option" where
  "validateSlug slug =
     (if slug = [] then Some ''Slug is required''
      else if length slug < 2 then Some ''Slug must be at least 2 characters''
      else if length slug > 50 then Some ''Slug must not exceed 50 characters''
      else if \<not> slugPattern slug
        then Some ''Slug must contain only lowercase letters, numbers, and hyphens''
      else if startsWith slug (js ''-'') \<or> endsWith slug (js ''-'')
        then Some ''Slug cannot start or end with a hyphen''
      else None)"

text \<open>
  \<open>s.replace(/X+/g, r)\<close> for a character class \<open>X\<close>: scanning from the left, every
  maximal run of characters of the class is replaced by \<open>r\<close>.
\<close>

function replaceRuns :: "(jschar \<Rightarrow> bool) \<Rightarrow> jsstring \<Rightarrow> jsstring \<Rightarrow> jsstring" where
  "replaceRuns P r [] = []"
| "replaceRuns P r (c # cs) =
     (if P c then r @ replaceRuns P r (dropWhile P cs) else c # replaceRuns P r cs)"
  by pat_completeness auto
termination
  by (relation "measure (\<lambda>(P, r, s). length s)") (auto simp: length_dropWhile_le less_Suc_eq_le)

text \<open>\<open>s.replace(/^-+|-+$/g, '')\<close>: the hyphens at the start go, then those at the end.\<close>

definition stripHyphens :: "jsstring \<Rightarrow> jsstring" where
  "stripHyphens s = rev (dropWhile (\<lambda>c. c = hyphen) (rev (dropWhile (\<lambda>c. c = hyphen) s)))"

definition generateSlug :: "builtins \<Rightarrow> jsstring \<Rightarrow> jsstring" where
  "generateSlug B title =
     (let lowered = toLowerCase B title;
          trimmed = trim lowered;
          cleaned = filter (\<lambda>c. isWordChar c \<or> isWhiteSpace c \<or> c = hyphen) trimmed;
          hyphenated = replaceRuns isWhiteSpace (js ''-'') cleaned;
          collapsed = replaceRuns (\<lambda>c. c = hyphen) (js ''-'') hyphenated
      in stripHyphens collapsed)"

text \<open>
  What the proofs use of \<open>toLowerCase\<close>: its result holds no ASCII capital, and a string
  of ASCII characters without capitals is left as it is. The ASCII lower-casing is one
  such function; the case mapping of the language is another.
\<close>

definition lowercasing :: "(jsstring \<Rightarrow> jsstring) \<Rightarrow> bool" where
  "lowercasing f =
     ((\<forall>t. list_all (\<lambda>c. \<not> isUpperAscii c) (f t))
      \<and> (\<forall>t. list_all (\<lambda>c. c < 128 \<and> \<not> isUpperAscii c) t \<longrightarrow> f t = t))"

text \<open>
  The shape of a generated slug: lower-case letters, digits, underscores and hyphens,
  no two hyphens in a row, no hyphen at either end.
\<close>

definition isSlugOut :: "jschar \<Rightarrow> bool" where
  "isSlugOut c = (isLowerAscii c \<or> isDigit c \<or> c = 95 \<or> c = hyphen)"

fun noDoubleHyphen :: "jsstring \<Rightarrow> bool" where
  "noDoubleHyphen (a # b # cs) = (\<not> (a = hyphen \<and> b = hyphen) \<and> noDoubleHyphen (b # cs))"
| "noDoubleHyphen _ = True"

definition slugText :: "jsstring \<Rightarrow> bool" where
  "slugText s = (list_all isSlugOut s \<and> noDoubleHyphen s
                 \<and> (s = [] \<or> (hd s \<noteq> hyphen \<and> last s \<noteq> hyphen)))"

definition validateMetaDescription :: "jsstring \<Rightarrow> string option" where
  "validateMetaDescription description =
     (if description = [] then Some ''Meta description is required''
      else if length description < 20
        then Some ''Meta description must be at least 20 characters''
      else if length description > 160
        then Some ''Meta description must not exceed 160 characters''
      else None)"

definition validateUrl :: "builtins \<Rightarrow> jsstring \<Rightarrow> string option" where
  "validateUrl B url =
     (if url = [] then None
      else case newURL B url of
             Some u \<Rightarrow> None
           | None \<Rightarrow> Some ''Invalid URL format'')"

definition validExtensions :: "jsstring list" where
  "validExtensions = [js ''.jpg'', js ''.jpeg'', js ''.png'', js ''.gif'', js ''.webp'']"

definition hasValidExt :: "builtins \<Rightarrow> jsstring \<Rightarrow> bool" where
  "hasValidExt B imageUrl = list_ex (\<lambda>ext. endsWith (toLowerCase B imageUrl) ext) validExtensions"

definition validateOgImage :: "builtins \<Rightarrow> jsstring \<Rightarrow> string option" where
  "validateOgImage B imageUrl =
     (if imageUrl = [] then Some ''Featured image URL is required''
      else if validateUrl B imageUrl \<noteq> None then Some ''Featured image URL must be valid''
      else if \<not> hasValidExt B imageUrl \<and> \<not> includesStr imageUrl (js ''firebaseapp.com'')
              \<and> \<not> includesStr imageUrl (js ''firebase.google.com'')
        then Some ''Image URL should be a direct image file (jpg, png, gif, webp) or Firebase URL''
      else None)"

text \<open>
  The image rule in the words of the specification, to compare with \<open>validateOgImage\<close>:
  the URL parses, and it ends in a known image extension or its host is an allow-listed
  hosting domain (the domain itself or a subdomain of it).
\<close>

definition allowListedDomains :: "jsstring list" where
  "allowListedDomains = [js ''firebaseapp.com'', js ''firebase.google.com'']"

definition belongsToAllowListedDomain :: "URL \<Rightarrow> bool" where
  "belongsToAllowListedDomain u =
     list_ex (\<lambda>d. hostname u = d \<or> endsWith (hostname u) (js ''.'' @ d)) allowListedDomains"

definition ogImageRule :: "builtins \<Rightarrow> jsstring \<Rightarrow> bool" where
  "ogImageRule B imageUrl =
     (imageUrl \<noteq> []
      \<and> (case newURL B imageUrl of
            None \<Rightarrow> False
          | Some u \<Rightarrow> hasValidExt B imageUrl \<or> belongsToAllowListedDomain u))"

definition validateHtmlContent :: "jsstring \<Rightarrow> string option" where
  "validateHtmlContent html =
     (if html = [] then Some ''HTML content is required''
      else let trimmed = trim html in
        if length trimmed < 10 then Some ''HTML content must be at least 10 characters''
        else if length trimmed > 1000000 then Some ''HTML content exceeds maximum size''
        else None)"

text \<open>
  \<open>/^[^\s@]+@[^\s@]+\.[^\s@]+$/\<close>: no white space anywhere, exactly one \<open>@\<close>, something
  before it, and after it a dot that is neither its first nor its last character.
\<close>

definition emailPattern :: "jsstring \<Rightarrow> bool" where
  "emailPattern s =
     (let local = takeWhile (\<lambda>c. c \<noteq> 64) s;
          domain = drop (Suc (length local)) s
      in local \<noteq> [] \<and> length local < length s
         \<and> list_all (\<lambda>c. \<not> isWhiteSpace c) s
         \<and> list_all (\<lambda>c. c \<noteq> 64) domain
         \<and> list_ex (\<lambda>i. domain ! i = 46) [1 ..< length domain - 1])"

definition validateEmail :: "jsstring \<Rightarrow> string option" where
  "validateEmail email =
     (if email = [] then None
      else if \<not> emailPattern email then Some ''Invalid email format''
      else None)"

definition validatePhone :: "jsstring \<Rightarrow> string option" where
  "validatePhone phone =
     (if phone = [] then None
      else if length phone < 7 then Some ''Phone number must be at least 7 digits''
      else if length phone > 20 then Some ''Phone number must not exceed 20 characters''
      else None)"

definition validateRequired :: "jsstring \<Rightarrow> string \<Rightarrow> string option" where
  "validateRequired v fieldName =
     (if v = [] \<or> trim v = [] then Some (fieldName @ '' is required'')
      else if length v > 500 then Some (fieldName @ '' must not exceed 500 characters'')
      else None)"

text \<open>
  The form data as the parameter of \<open>validateLandingPageForm\<close> declares it: ten string
  fields and three optional ones (\<open>None\<close> is \<open>undefined\<close>).
\<close>

record formData =
  businessName :: jsstring
  slug :: jsstring
  metaTitle :: jsstring
  metaDescription :: jsstring
  ogTitle :: jsstring
  ogDescription :: jsstring
  ogImage :: jsstring
  businessCategory :: jsstring
  businessLocation :: jsstring
  businessPhone :: "jsstring option"
  businessEmail :: "jsstring option"
  businessWebsite :: "jsstring option"
  htmlContent :: jsstring

text \<open>
  The result \<open>Record<string, string>\<close> is kept as a list of (field, message) in the order
  the fields are assigned; each field is assigned at most once.

  The thirteen tests of \<open>validateLandingPageForm\<close> (lines 154 to 192) are written
  \<open>if (error := validateRequired(data.businessName, 'Business name')) { errors.businessName = error; }\<close>
  with \<open>error\<close> declared nowhere. \<open>:=\<close> is not an operator of TypeScript: as it is
  written the module does not compile, and the function returns nothing. The test is read
  here as what it attempts, "assign the result to \<open>error\<close>, then test it":
  \<open>record_error\<close> is that reading. Every message is a non-empty string, so the result is
  truthy exactly when it is not \<open>null\<close>. All that is said of \<open>validateLandingPageForm\<close>
  below, and of the handlers that call it, is said of this reading.
\<close>

type_synonym fieldErrors = "(string \<times> string) list"

definition record_error :: "string \<Rightarrow> string option \<Rightarrow> fieldErrors \<Rightarrow> fieldErrors" where
  "record_error field r errors = (case r of None \<Rightarrow> errors | Some e \<Rightarrow> errors @ [(field, e)])"

text \<open>\<open>data.f && validate(data.f)\<close> on an optional field: skipped when undefined or empty.\<close>

definition optional_error :: "(jsstring \<Rightarrow> string option) \<Rightarrow> jsstring option \<Rightarrow> string option" where
  "optional_error validate v =
     (case v of None \<Rightarrow> None | Some s \<Rightarrow> if s = [] then None else validate s)"

definition validateLandingPageForm :: "builtins \<Rightarrow> formData \<Rightarrow> fieldErrors" where
  "validateLandingPageForm B data =
     (let errors = [];
          errors = record_error ''businessName''
                     (validateRequired (businessName data) ''Business name'') errors;
          errors = record_error ''slug'' (validateSlug (slug data)) errors;
          errors = record_error ''metaTitle''
                     (validateRequired (metaTitle data) ''Meta title'') errors;
          errors = record_error ''metaDescription''
                     (validateMetaDescription (metaDescription data)) errors;
          errors = record_error ''ogTitle''
                     (validateRequired (ogTitle data) ''OG title'') errors;
          errors = record_error ''ogDescription''
                     (validateRequired (ogDescription data) ''OG description'') errors;
          errors = record_error ''ogImage'' (validateOgImage B (ogImage data)) errors;
          errors = record_error ''businessCategory''
                     (validateRequired (businessCategory data) ''Business category'') errors;
          errors = record_error ''businessLocation''
                     (validateRequired (businessLocation data) ''Business location'') errors;
          errors = record_error ''htmlContent''
                     (validateHtmlContent (htmlContent data)) errors;
          errors = record_error ''businessPhone''
                     (optional_error validatePhone (businessPhone data)) errors;
          errors = record_error ''businessEmail''
                     (optional_error validateEmail (businessEmail data)) errors;
          errors = record_error ''businessWebsite''
                     (optional_error (validateUrl B) (businessWebsite data)) errors
      in errors)"

text \<open>A form with every field empty, to build explicit inputs from.\<close>

definition blankForm :: formData where
  "blankForm =
     \<lparr>businessName = [], slug = [], metaTitle = [], metaDescription = [], ogTitle = [],
      ogDescription = [], ogImage = [], businessCategory = [], businessLocation = [],
      businessPhone = None, businessEmail = None, businessWebsite = None, htmlContent = []\<rparr>"

section \<open>Record store adapter (src/lib/firestore.ts)\<close>

text \<open>
  A stored document, the \<open>Partial<LandingPage>\<close> handed to create and update, and a
  JSON request body are all objects with some of the fields present: maps from the
  field name to its value. \<open>None\<close> is \<open>undefined\<close> (the field is absent), \<open>VNull\<close> is
  \<open>null\<close>, a \<open>Date\<close> is its instant in milliseconds.
\<close>

datatype fvalue = VStr jsstring | VBool bool | VNum int | VDate nat | VNull

type_synonym doc = "string \<rightharpoonup> fvalue"

text \<open>A collection: the documents with their ids, in the order a query returns them.\<close>

type_synonym collection = "(jsstring \<times> doc) list"

record auditEntry =
  action :: string
  adminId :: jsstring
  targetType :: string
  targetId :: jsstring
  changes :: "(doc \<times> doc option) option"
  ipAddress :: "jsstring option"
  timestamp :: nat

record firestore =
  landingPages :: collection
  auditLogs :: "auditEntry list"

text \<open>
  What a request can change: the database behind \<open>adminDb\<close>, which is \<open>undefined\<close> when
  the admin SDK was not initialised, and the rebuild requests sent to the CI hook.
\<close>

record world =
  adminDb :: "firestore option"
  rebuildRequests :: nat

text \<open>
  What a call can throw: a \<open>TypeError\<close> (a member of \<open>undefined\<close> is used), a
  \<open>SyntaxError\<close> (a body that is not JSON), an error of an upstream service.
\<close>

datatype exn = TypeError | SyntaxError | UpstreamError

definition andThen :: "exn + 'a \<Rightarrow> ('a \<Rightarrow> exn + 'b) \<Rightarrow> exn + 'b" where
  "andThen m f = (case m of Inl e \<Rightarrow> Inl e | Inr x \<Rightarrow> f x)"

text \<open>\<open>adminDb!\<close>: using the database throws when there is none.\<close>

definition theDb :: "world \<Rightarrow> exn + firestore" where
  "theDb w = (case adminDb w of None \<Rightarrow> Inl TypeError | Some db \<Rightarrow> Inr db)"

definition published :: fvalue where
  "published = VStr (js ''published'')"

text \<open>Truthiness of a value, as \<open>if (v)\<close> and \<open>!v\<close> read it.\<close>

definition truthy :: "fvalue option \<Rightarrow> bool" where
  "truthy v =
     (case v of
        None \<Rightarrow> False
      | Some VNull \<Rightarrow> False
      | Some (VBool b) \<Rightarrow> b
      | Some (VNum n) \<Rightarrow> n \<noteq> 0
      | Some (VStr s) \<Rightarrow> s \<noteq> []
      | Some (VDate t) \<Rightarrow> True)"

section \<open>The validator on the fields of a request body\<close>

text \<open>
  A handler calls \<open>validateLandingPageForm(body)\<close> on the parsed JSON body, whose fields
  need not be strings. The values here are strings, booleans, numbers, dates and \<open>null\<close>;
  arrays and nested objects are left out. On a falsy value (\<open>undefined\<close>, \<open>null\<close>,
  \<open>false\<close>, \<open>0\<close>, the empty string) the first test \<open>!value\<close> of every validator
  answers as it does on the empty string. On a truthy value that is not a string the
  validator runs on, and what it does is the second argument of \<open>applied\<close>.
\<close>

definition applied ::
  "(jsstring \<Rightarrow> string option) \<Rightarrow> (fvalue \<Rightarrow> exn + string option) \<Rightarrow> fvalue option
   \<Rightarrow> exn + string option" where
  "applied validate other v =
     (case v of
        None \<Rightarrow> Inr (validate [])
      | Some (VStr s) \<Rightarrow> Inr (validate s)
      | Some x \<Rightarrow> if truthy v then other x else Inr (validate []))"

text \<open>
  \<open>value.trim()\<close>, \<open>slug.startsWith('-')\<close> and \<open>imageUrl.toLowerCase()\<close> call a method
  that a boolean, a number or a date does not have: a \<open>TypeError\<close>.
\<close>

definition notAString :: "fvalue \<Rightarrow> exn + string option" where
  "notAString x = Inl TypeError"

text \<open>
  \<open>/^[a-z0-9-]+$/.test(slug)\<close> tests the text of the value: \<open>true\<close>, the decimal
  digits of an integer below \<open>10^21\<close> in size (with its sign), the exponent form
  \<open>1e+21\<close> of a larger one, the text of a date with its capitals and spaces.
\<close>

definition printsAsSlugText :: "fvalue \<Rightarrow> bool" where
  "printsAsSlugText x =
     (case x of
        VStr s \<Rightarrow> slugPattern s
      | VBool b \<Rightarrow> True
      | VNum n \<Rightarrow> \<bar>n\<bar> < 10 ^ 21
      | VDate t \<Rightarrow> False
      | VNull \<Rightarrow> True)"

text \<open>
  \<open>validateSlug\<close> on such a value: \<open>slug.length\<close> is \<open>undefined\<close> and both comparisons
  with it are false; then the pattern, and after it \<open>slug.startsWith\<close>.
\<close>

definition slugNotAString :: "fvalue \<Rightarrow> exn + string option" where
  "slugNotAString x =
     (if \<not> printsAsSlugText x
      then Inr (Some ''Slug must contain only lowercase letters, numbers, and hyphens'')
      else Inl TypeError)"

text \<open>
  \<open>validateMetaDescription\<close> and \<open>validatePhone\<close> only compare \<open>value.length\<close>, which
  is \<open>undefined\<close>: no error. The text of a boolean, a number or a date is neither an
  absolute URL (\<open>new URL\<close> throws, which \<open>validateUrl\<close> catches) nor an e-mail address.
\<close>

definition passes :: "fvalue \<Rightarrow> exn + string option" where
  "passes x = Inr None"

definition fails :: "string \<Rightarrow> fvalue \<Rightarrow> exn + string option" where
  "fails msg x = Inr (Some msg)"

text \<open>The tests in the order of the source, each with the field it reads and reports.\<close>

definition formChecks :: "builtins \<Rightarrow> (string \<times> (fvalue option \<Rightarrow> exn + string option)) list" where
  "formChecks B =
     [(''businessName'', applied (\<lambda>s. validateRequired s ''Business name'') notAString),
      (''slug'', applied validateSlug slugNotAString),
      (''metaTitle'', applied (\<lambda>s. validateRequired s ''Meta title'') notAString),
      (''metaDescription'', applied validateMetaDescription passes),
      (''ogTitle'', applied (\<lambda>s. validateRequired s ''OG title'') notAString),
      (''ogDescription'', applied (\<lambda>s. validateRequired s ''OG description'') notAString),
      (''ogImage'', applied (validateOgImage B) (fails ''Featured image URL must be valid'')),
      (''businessCategory'', applied (\<lambda>s. validateRequired s ''Business category'') notAString),
      (''businessLocation'', applied (\<lambda>s. validateRequired s ''Business location'') notAString),
      (''htmlContent'', applied validateHtmlContent notAString),
      (''businessPhone'', applied validatePhone passes),
      (''businessEmail'', applied validateEmail (fails ''Invalid email format'')),
      (''businessWebsite'', applied (validateUrl B) (fails ''Invalid URL format''))]"

fun runChecks ::
  "(string \<times> (fvalue option \<Rightarrow> exn + string option)) list \<Rightarrow> doc \<Rightarrow> fieldErrors
   \<Rightarrow> exn + fieldErrors" where
  "runChecks [] data errors = Inr errors"
| "runChecks ((field, check) # rest) data errors =
     andThen (check (data field)) (\<lambda>r. runChecks rest data (record_error field r errors))"

text \<open>
  \<open>validateLandingPageForm(body)\<close> as a handler calls it: the errors, or the exception
  of the first test that throws.
\<close>

definition validateLandingPageForm_any :: "builtins \<Rightarrow> doc \<Rightarrow> exn + fieldErrors" where
  "validateLandingPageForm_any B data = runChecks (formChecks B) data []"

text \<open>
  A body whose form fields are strings or absent is the form data the function
  declares: \<open>formOfBody\<close> reads it.
\<close>

definition stringField :: "doc \<Rightarrow> string \<Rightarrow> jsstring" where
  "stringField d field = (case d field of Some (VStr s) \<Rightarrow> s | _ \<Rightarrow> [])"

definition optionalField :: "doc \<Rightarrow> string \<Rightarrow> jsstring option" where
  "optionalField d field = (case d field of Some (VStr s) \<Rightarrow> Some s | _ \<Rightarrow> None)"

definition formFields :: "string list" where
  "formFields =
     [''businessName'', ''slug'', ''metaTitle'', ''metaDescription'', ''ogTitle'',
      ''ogDescription'', ''ogImage'', ''businessCategory'', ''businessLocation'',
      ''htmlContent'', ''businessPhone'', ''businessEmail'', ''businessWebsite'']"

definition isText :: "fvalue option \<Rightarrow> bool" where
  "isText v = (case v of None \<Rightarrow> True | Some (VStr s) \<Rightarrow> True | Some x \<Rightarrow> False)"

definition wellTyped :: "doc \<Rightarrow> bool" where
  "wellTyped b = list_all (\<lambda>field. isText (b field)) formFields"

definition formOfBody :: "doc \<Rightarrow> formData" where
  "formOfBody b =
     \<lparr>businessName = stringField b ''businessName'',
      slug = stringField b ''slug'',
      metaTitle = stringField b ''metaTitle'',
      metaDescription = stringField b ''metaDescription'',
      ogTitle = stringField b ''ogTitle'',
      ogDescription = stringField b ''ogDescription'',
      ogImage = stringField b ''ogImage'',
      businessCategory = stringField b ''businessCategory'',
      businessLocation = stringField b ''businessLocation'',
      businessPhone = optionalField b ''businessPhone'',
      businessEmail = optionalField b ''businessEmail'',
      businessWebsite = optionalField b ''businessWebsite'',
      htmlContent = stringField b ''htmlContent''\<rparr>"

section \<open>Record store adapter: queries and writes\<close>

text \<open>\<open>{ id: doc.id, ...doc.data() }\<close>\<close>

definition withId :: "jsstring \<Rightarrow> doc \<Rightarrow> doc" where
  "withId i d = [''id'' \<mapsto> VStr i] ++ d"

definition whereEq :: "string \<Rightarrow> fvalue \<Rightarrow> collection \<Rightarrow> collection" where
  "whereEq field v c = filter (\<lambda>(i, d). d field = Some v) c"

text \<open>
  \<open>orderBy(field, 'desc')\<close> on a field that create and update stamp with a \<open>Date\<close>:
  documents without the field are left out, the later instant comes first, \<open>null\<close> last.
\<close>

definition orderKey :: "fvalue option \<Rightarrow> nat" where
  "orderKey v = (case v of Some (VDate t) \<Rightarrow> Suc t | _ \<Rightarrow> 0)"

definition orderByDesc :: "string \<Rightarrow> collection \<Rightarrow> collection" where
  "orderByDesc field c =
     rev (sort_key (\<lambda>(i, d). orderKey (d field)) (filter (\<lambda>(i, d). d field \<noteq> None) c))"

text \<open>A filter of the request is used when it is a non-empty string.\<close>

definition given :: "jsstring option \<Rightarrow> jsstring option" where
  "given v = (case v of None \<Rightarrow> None | Some s \<Rightarrow> if s = [] then None else Some s)"

record filters =
  status :: "jsstring option"
  category :: "jsstring option"
  search :: "jsstring option"

text \<open>\<open>page.f.toLowerCase()\<close> throws on a field that is not a string.\<close>

definition lowerField :: "builtins \<Rightarrow> doc \<Rightarrow> string \<Rightarrow> exn + jsstring" where
  "lowerField B d field =
     (case d field of Some (VStr s) \<Rightarrow> Inr (toLowerCase B s) | _ \<Rightarrow> Inl TypeError)"

definition matchesSearch :: "builtins \<Rightarrow> jsstring \<Rightarrow> doc \<Rightarrow> exn + bool" where
  "matchesSearch B searchLower page =
     andThen (lowerField B page ''title'') (\<lambda>t.
       if includesStr t searchLower then Inr True
       else andThen (lowerField B page ''slug'') (\<lambda>sl.
         if includesStr sl searchLower then Inr True
         else andThen (lowerField B page ''businessName'') (\<lambda>n.
           Inr (includesStr n searchLower))))"

fun filterE :: "('a \<Rightarrow> exn + bool) \<Rightarrow> 'a list \<Rightarrow> exn + 'a list" where
  "filterE p [] = Inr []"
| "filterE p (x # xs) =
     andThen (p x) (\<lambda>keep. andThen (filterE p xs) (\<lambda>rest.
       Inr (if keep then x # rest else rest)))"

definition getLandingPages :: "builtins \<Rightarrow> world \<Rightarrow> filters \<Rightarrow> exn + doc list" where
  "getLandingPages B w f =
     andThen (theDb w) (\<lambda>db.
       let q0 = landingPages db;
           q1 = (case given (status f) of Some st \<Rightarrow> whereEq ''status'' (VStr st) q0
                 | None \<Rightarrow> q0);
           q2 = (case given (category f) of Some cat \<Rightarrow> whereEq ''businessCategory'' (VStr cat) q1
                 | None \<Rightarrow> q1);
           pages = map (\<lambda>(i, d). withId i d) (orderByDesc ''updatedAt'' q2)
       in case given (search f) of
            Some q \<Rightarrow> filterE (matchesSearch B (toLowerCase B q)) pages
          | None \<Rightarrow> Inr pages)"

definition getLandingPageById :: "world \<Rightarrow> jsstring \<Rightarrow> exn + doc option" where
  "getLandingPageById w i =
     andThen (theDb w) (\<lambda>db.
       Inr (case map_of (landingPages db) i of None \<Rightarrow> None | Some d \<Rightarrow> Some (withId i d)))"

definition getLandingPageBySlug :: "world \<Rightarrow> jsstring \<Rightarrow> exn + doc option" where
  "getLandingPageBySlug w sl =
     andThen (theDb w) (\<lambda>db.
       Inr (case take 1 (whereEq ''slug'' (VStr sl) (landingPages db)) of
              [] \<Rightarrow> None
            | (i, d) # rest \<Rightarrow> Some (withId i d)))"

text \<open>\<open>if (excludeId)\<close> holds for a non-empty string.\<close>

definition isSlugTaken :: "world \<Rightarrow> jsstring \<Rightarrow> jsstring option \<Rightarrow> exn + bool" where
  "isSlugTaken w sl excludeId =
     andThen (theDb w) (\<lambda>db.
       Inr (case take 1 (whereEq ''slug'' (VStr sl) (landingPages db)) of
              [] \<Rightarrow> False
            | (i, d) # rest \<Rightarrow>
                (case given excludeId of Some e \<Rightarrow> i \<noteq> e | None \<Rightarrow> True)))"

text \<open>
  The object literal of \<open>createLandingPage\<close>: the fields after \<open>...data\<close> override those
  of \<open>data\<close>.
\<close>

definition pageData :: "doc \<Rightarrow> jsstring \<Rightarrow> nat \<Rightarrow> doc" where
  "pageData data admin now =
     data ++ [''createdAt'' \<mapsto> VDate now,
              ''updatedAt'' \<mapsto> VDate now,
              ''createdBy'' \<mapsto> VStr admin,
              ''updatedBy'' \<mapsto> VStr admin,
              ''isPublished'' \<mapsto> VBool (data ''status'' = Some published),
              ''publishedAt'' \<mapsto> (if data ''status'' = Some published then VDate now else VNull),
              ''viewCount'' \<mapsto> VNum 0,
              ''lastViewedAt'' \<mapsto> VNull]"

text \<open>
  \<open>collection.add(pageData)\<close> stores the document under an id the store chooses;
  the id is the parameter \<open>newId\<close>.
\<close>

definition createLandingPage ::
  "world \<Rightarrow> jsstring \<Rightarrow> doc \<Rightarrow> jsstring \<Rightarrow> nat \<Rightarrow> exn + (jsstring \<times> world)" where
  "createLandingPage w newId data admin now =
     andThen (theDb w) (\<lambda>db.
       Inr (newId,
            w\<lparr>adminDb := Some (db\<lparr>landingPages := landingPages db @ [(newId, pageData data admin now)]\<rparr>)\<rparr>))"

definition updateData :: "doc \<Rightarrow> doc \<Rightarrow> jsstring \<Rightarrow> nat \<Rightarrow> doc" where
  "updateData oldDoc data admin now =
     (let u0 = data ++ [''updatedAt'' \<mapsto> VDate now,
                        ''updatedBy'' \<mapsto> VStr admin,
                        ''isPublished'' \<mapsto> VBool (data ''status'' = Some published)];
          u1 = (if data ''status'' = Some published \<and> \<not> truthy (oldDoc ''isPublished'')
                then u0(''publishedAt'' \<mapsto> VDate now) else u0);
          u2 = (if data ''status'' \<noteq> Some published \<and> truthy (oldDoc ''isPublished'')
                then u1(''publishedAt'' \<mapsto> VNull) else u1)
      in u2)"

text \<open>\<open>doc(id).update(written)\<close> writes the given fields and keeps the others.\<close>

definition updateDoc :: "jsstring \<Rightarrow> doc \<Rightarrow> collection \<Rightarrow> collection" where
  "updateDoc i written c = map (\<lambda>(j, d). if j = i then (j, d ++ written) else (j, d)) c"

definition updateLandingPage ::
  "world \<Rightarrow> jsstring \<Rightarrow> doc \<Rightarrow> jsstring \<Rightarrow> nat \<Rightarrow> exn + (bool \<times> world)" where
  "updateLandingPage w i data admin now =
     andThen (getLandingPageById w i) (\<lambda>old.
       case old of
         None \<Rightarrow> Inr (False, w)
       | Some oldDoc \<Rightarrow>
           andThen (theDb w) (\<lambda>db.
             Inr (True,
                  w\<lparr>adminDb := Some (db\<lparr>landingPages :=
                       updateDoc i (updateData oldDoc data admin now) (landingPages db)\<rparr>)\<rparr>)))"

definition deleteLandingPage :: "world \<Rightarrow> jsstring \<Rightarrow> exn + (bool \<times> world)" where
  "deleteLandingPage w i =
     andThen (getLandingPageById w i) (\<lambda>old.
       case old of
         None \<Rightarrow> Inr (False, w)
       | Some d \<Rightarrow>
           andThen (theDb w) (\<lambda>db.
             Inr (True,
                  w\<lparr>adminDb := Some (db\<lparr>landingPages :=
                       filter (\<lambda>(j, d). j \<noteq> i) (landingPages db)\<rparr>)\<rparr>)))"

definition getPublishedLandingPages :: "world \<Rightarrow> exn + doc list" where
  "getPublishedLandingPages w =
     andThen (theDb w) (\<lambda>db.
       Inr (map (\<lambda>(i, d). withId i d)
              (orderByDesc ''publishedAt'' (whereEq ''status'' published (landingPages db)))))"

text \<open>
  The invariant of a page record: \<open>publishedAt\<close> is set exactly when the status is
  published, and \<open>isPublished\<close> says the same.
\<close>

definition nonNull :: "fvalue option \<Rightarrow> bool" where
  "nonNull v = (v \<noteq> None \<and> v \<noteq> Some VNull)"

definition publishInvariant :: "doc \<Rightarrow> bool" where
  "publishInvariant d =
     (nonNull (d ''publishedAt'') = (d ''status'' = Some published)
      \<and> truthy (d ''isPublished'') = (d ''status'' = Some published))"

text \<open>The document stored under an id, if the database is there and has one.\<close>

definition storedPage :: "world \<Rightarrow> jsstring \<Rightarrow> doc option" where
  "storedPage w i = (case adminDb w of None \<Rightarrow> None | Some db \<Rightarrow> map_of (landingPages db) i)"

text \<open>
  A concrete store, for evaluating the operations at explicit inputs: one page created
  as published under the id \<open>p1\<close>, one created as a draft under \<open>p2\<close>.
\<close>

definition cafeNoon :: doc where
  "cafeNoon = pageData [''title'' \<mapsto> VStr (js ''Cafe Noon''), ''slug'' \<mapsto> VStr (js ''cafe-noon''),
                        ''status'' \<mapsto> published] (js ''admin1'') 1000"

definition teaHouse :: doc where
  "teaHouse = pageData [''title'' \<mapsto> VStr (js ''Tea House''), ''slug'' \<mapsto> VStr (js ''tea-house''),
                        ''status'' \<mapsto> VStr (js ''draft'')] (js ''admin1'') 2000"

definition exampleWorld :: world where
  "exampleWorld =
     \<lparr>adminDb = Some \<lparr>landingPages = [(js ''p1'', cafeNoon), (js ''p2'', teaHouse)],
                       auditLogs = []\<rparr>,
      rebuildRequests = 0\<rparr>"

section \<open>Route handlers (src/app/api/landing-pages)\<close>

text \<open>
  \<open>getCurrentAdmin\<close> belongs to lib/auth, which is not among the sources: a handler
  gets the outcome of the call, the admin of the session, \<open>null\<close> (\<open>Inr None\<close>) when the
  request carries no valid admin session, or the exception it threw.
\<close>

record admin =
  uid :: jsstring
  email :: jsstring

datatype payload =
    ErrorBody string
  | ValidationBody fieldErrors
  | ListBody "doc list"
  | CreatedBody string jsstring
  | PageBody doc
  | MessageBody string
  | PublishBody string doc

record response =
  httpStatus :: nat
  payload :: payload

definition json :: "nat \<Rightarrow> payload \<Rightarrow> response" where
  "json code p = \<lparr>httpStatus = code, payload = p\<rparr>"

text \<open>
  \<open>try { ... } catch\<close> of a handler: an exception becomes the 500 answer. Here an
  exception can only arise before the first write of a handler (a database that is
  there stays there), so the state at the \<open>catch\<close> is the one of the start.
\<close>

definition catch :: "world \<Rightarrow> string \<Rightarrow> exn + (response \<times> world) \<Rightarrow> response \<times> world" where
  "catch w msg r = (case r of Inl e \<Rightarrow> (json 500 (ErrorBody msg), w) | Inr x \<Rightarrow> x)"

text \<open>\<open>await request.json()\<close>: the body as an object, or a throw when it does not parse.\<close>

definition requestJson :: "doc option \<Rightarrow> exn + doc" where
  "requestJson body = (case body of None \<Rightarrow> Inl SyntaxError | Some b \<Rightarrow> Inr b)"

text \<open>
  Modelled from the spec: \<open>logAuditEvent\<close> of lib/auth, which is not among the sources.
  An audit entry is appended to the audit collection: action tag, acting admin id,
  target type and id, before/after snapshot, request origin address, timestamp. Entries
  are never updated or deleted.
\<close>

definition logAuditEvent ::
  "string \<Rightarrow> jsstring \<Rightarrow> string \<Rightarrow> jsstring \<Rightarrow> (doc \<times> doc option) option \<Rightarrow> jsstring option
   \<Rightarrow> nat \<Rightarrow> world \<Rightarrow> exn + world" where
  "logAuditEvent act who ttype tid snapshot ip now w =
     andThen (theDb w) (\<lambda>db.
       Inr (w\<lparr>adminDb := Some (db\<lparr>auditLogs := auditLogs db @
              [\<lparr>action = act, adminId = who, targetType = ttype, targetId = tid,
                changes = snapshot, ipAddress = ip, timestamp = now\<rparr>]\<rparr>)\<rparr>))"

text \<open>
  Modelled from the spec: \<open>triggerRebuild\<close> of lib/rebuild, which is not among the sources.
  It posts a rebuild request to the external CI hook; a failure is logged and swallowed,
  and the caller does not wait for the outcome.
\<close>

definition triggerRebuild :: "world \<Rightarrow> world" where
  "triggerRebuild w = w\<lparr>rebuildRequests := Suc (rebuildRequests w)\<rparr>"

text \<open>
  \<open>body.slug\<close> is handed to \<open>isSlugTaken\<close> only after the validation has found no
  error, and then it is a string: \<open>stringField\<close> reads it.
\<close>

definition unauthorized :: response where
  "unauthorized = json 401 (ErrorBody ''Unauthorized'')"

text \<open>\<open>GET /api/landing-pages\<close>\<close>

definition GET_landingPages ::
  "builtins \<Rightarrow> exn + admin option \<Rightarrow> filters \<Rightarrow> world \<Rightarrow> response \<times> world" where
  "GET_landingPages B auth searchParams w =
     catch w ''Server error fetching landing pages''
       (andThen auth (\<lambda>who.
          case who of
            None \<Rightarrow> Inr (unauthorized, w)
          | Some a \<Rightarrow>
              andThen (getLandingPages B w
                         \<lparr>status = given (status searchParams),
                          category = given (category searchParams),
                          search = given (search searchParams)\<rparr>) (\<lambda>pages.
                Inr (json 200 (ListBody pages), w))))"

text \<open>\<open>POST /api/landing-pages\<close>\<close>

definition POST_landingPages ::
  "builtins \<Rightarrow> exn + admin option \<Rightarrow> doc option \<Rightarrow> jsstring \<Rightarrow> nat \<Rightarrow> jsstring option \<Rightarrow> world
   \<Rightarrow> response \<times> world" where
  "POST_landingPages B auth body newId now ip w =
     catch w ''Server error creating landing page''
       (andThen auth (\<lambda>who.
          case who of
            None \<Rightarrow> Inr (unauthorized, w)
          | Some a \<Rightarrow>
              andThen (requestJson body) (\<lambda>b.
              andThen (validateLandingPageForm_any B b) (\<lambda>errors.
                if errors \<noteq> [] then Inr (json 400 (ValidationBody errors), w)
                else andThen (isSlugTaken w (stringField b ''slug'') None) (\<lambda>taken.
                  if taken
                  then Inr (json 400 (ValidationBody [(''slug'', ''Slug is already taken'')]), w)
                  else andThen (createLandingPage w newId b (uid a) now) (\<lambda>(pageId, w1).
                    andThen (logAuditEvent ''page_created'' (uid a) ''landingPage'' pageId
                               None ip now w1) (\<lambda>w2.
                      Inr (json 201 (CreatedBody ''Landing page created successfully'' pageId),
                           w2))))))))"

text \<open>\<open>GET /api/landing-pages/[id]\<close>\<close>

definition GET_landingPage ::
  "exn + admin option \<Rightarrow> jsstring \<Rightarrow> world \<Rightarrow> response \<times> world" where
  "GET_landingPage auth i w =
     catch w ''Server error fetching landing page''
       (andThen auth (\<lambda>who.
          case who of
            None \<Rightarrow> Inr (unauthorized, w)
          | Some a \<Rightarrow>
              andThen (getLandingPageById w i) (\<lambda>found.
                case found of
                  None \<Rightarrow> Inr (json 404 (ErrorBody ''Landing page not found''), w)
                | Some page \<Rightarrow> Inr (json 200 (PageBody page), w))))"

text \<open>\<open>PUT /api/landing-pages/[id]\<close>\<close>

definition PUT_landingPage ::
  "builtins \<Rightarrow> exn + admin option \<Rightarrow> jsstring \<Rightarrow> doc option \<Rightarrow> nat \<Rightarrow> jsstring option \<Rightarrow> world
   \<Rightarrow> response \<times> world" where
  "PUT_landingPage B auth i body now ip w =
     catch w ''Server error updating landing page''
       (andThen auth (\<lambda>who.
          case who of
            None \<Rightarrow> Inr (unauthorized, w)
          | Some a \<Rightarrow>
              andThen (requestJson body) (\<lambda>b.
              andThen (getLandingPageById w i) (\<lambda>found.
                case found of
                  None \<Rightarrow> Inr (json 404 (ErrorBody ''Landing page not found''), w)
                | Some oldPage \<Rightarrow>
                    andThen (validateLandingPageForm_any B b) (\<lambda>errors.
                    if errors \<noteq> [] then Inr (json 400 (ValidationBody errors), w)
                    else andThen (if b ''slug'' \<noteq> oldPage ''slug''
                                  then isSlugTaken w (stringField b ''slug'') (Some i)
                                  else Inr False) (\<lambda>taken.
                      if taken
                      then Inr (json 400 (ValidationBody [(''slug'', ''Slug is already taken'')]), w)
                      else andThen (updateLandingPage w i b (uid a) now) (\<lambda>(success, w1).
                        if \<not> success
                        then Inr (json 400 (ErrorBody ''Failed to update landing page''), w1)
                        else andThen (logAuditEvent ''page_updated'' (uid a) ''landingPage'' i
                                        (Some (oldPage, Some b)) ip now w1) (\<lambda>w2.
                          Inr (json 200 (MessageBody ''Landing page updated successfully''),
                               w2)))))))))"

text \<open>\<open>DELETE /api/landing-pages/[id]\<close>\<close>

definition DELETE_landingPage ::
  "exn + admin option \<Rightarrow> jsstring \<Rightarrow> nat \<Rightarrow> jsstring option \<Rightarrow> world \<Rightarrow> response \<times> world" where
  "DELETE_landingPage auth i now ip w =
     catch w ''Server error deleting landing page''
       (andThen auth (\<lambda>who.
          case who of
            None \<Rightarrow> Inr (unauthorized, w)
          | Some a \<Rightarrow>
              andThen (getLandingPageById w i) (\<lambda>found.
                case found of
                  None \<Rightarrow> Inr (json 404 (ErrorBody ''Landing page not found''), w)
                | Some page \<Rightarrow>
                    andThen (deleteLandingPage w i) (\<lambda>(success, w1).
                      if \<not> success
                      then Inr (json 400 (ErrorBody ''Failed to delete landing page''), w1)
                      else andThen (logAuditEvent ''page_deleted'' (uid a) ''landingPage'' i
                                      (Some (page, None)) ip now w1) (\<lambda>w2.
                        Inr (json 200 (MessageBody ''Landing page deleted successfully''),
                             w2))))))"

text \<open>\<open>POST /api/landing-pages/[id]/publish\<close>\<close>

definition POST_publish ::
  "exn + admin option \<Rightarrow> jsstring \<Rightarrow> doc option \<Rightarrow> nat \<Rightarrow> jsstring option \<Rightarrow> world
   \<Rightarrow> response \<times> world" where
  "POST_publish auth i body now ip w =
     catch w ''Server error updating page status''
       (andThen auth (\<lambda>who.
          case who of
            None \<Rightarrow> Inr (unauthorized, w)
          | Some a \<Rightarrow>
              andThen (requestJson body) (\<lambda>b.
                case b ''publish'' of
                  Some (VBool publish) \<Rightarrow>
                    andThen (getLandingPageById w i) (\<lambda>found.
                      case found of
                        None \<Rightarrow> Inr (json 404 (ErrorBody ''Landing page not found''), w)
                      | Some page \<Rightarrow>
                          let newStatus = (if publish then ''published'' else ''draft'') in
                          if page ''status'' = Some (VStr (js newStatus))
                          then Inr (json 200 (PublishBody (''Page is already '' @ newStatus)
                                                (page(''status'' \<mapsto> VStr (js newStatus)))), w)
                          else
                            andThen (updateLandingPage w i [''status'' \<mapsto> VStr (js newStatus)]
                                       (uid a) now) (\<lambda>(success, w1).
                              if \<not> success
                              then Inr (json 400 (ErrorBody ''Failed to update page status''), w1)
                              else andThen (logAuditEvent
                                              (if publish then ''page_published''
                                               else ''page_unpublished'')
                                              (uid a) ''landingPage'' i
                                              (Some (page, Some (page(''status'' \<mapsto> VStr (js newStatus)))))
                                              ip now w1) (\<lambda>w2.
                                Inr (json 200
                                       (PublishBody
                                          (''Page '' @ (if publish then ''published''
                                                        else ''unpublished'')
                                           @ '' successfully. Rebuilding site...'')
                                          (page(''status'' \<mapsto> VStr (js newStatus)))),
                                     triggerRebuild w2))))
                | other \<Rightarrow>
                    Inr (json 400 (ErrorBody ''Invalid request: publish must be boolean''), w))))"

section \<open>Static renderer: the sitemap (src/app/sitemap.ts)\<close>

text \<open>
  The pages as \<open>getPublishedLandingPages\<close> hands them over, at the type it declares
  (\<open>LandingPage[]\<close>), with the two fields the sitemap reads. \<open>updatedAt\<close> is declared a
  \<open>FieldValue\<close>: it is a \<open>Date\<close> object, or some other value, kept here with the date
  that \<open>new Date(value)\<close> makes of it. A \<open>Timestamp\<close> object of the store is such a
  value, and the date made of it is an invalid one.
\<close>

datatype jsDate = Instant nat | InvalidDate

datatype fieldValue = DateObject nat | NotADate jsDate

record LandingPage =
  slug :: jsstring
  updatedAt :: fieldValue

text \<open>The priority is kept in tenths: \<open>0.8\<close> is \<open>8\<close>.\<close>

record sitemapEntry =
  url :: jsstring
  lastModified :: jsDate
  changeFrequency :: string
  priority :: nat

text \<open>\<open>process.env.NEXT_PUBLIC_SITE_URL || 'https://kashpages.in'\<close>\<close>

definition SITE_URL :: "jsstring option \<Rightarrow> jsstring" where
  "SITE_URL env = (case env of None \<Rightarrow> js ''https://kashpages.in''
                   | Some u \<Rightarrow> if u = [] then js ''https://kashpages.in'' else u)"

text \<open>
  \<open>page.updatedAt instanceof Date ? page.updatedAt : new Date(page.updatedAt as any)\<close>
\<close>

definition asDate :: "fieldValue \<Rightarrow> jsDate" where
  "asDate v = (case v of DateObject t \<Rightarrow> Instant t | NotADate made \<Rightarrow> made)"

definition pageEntry :: "jsstring \<Rightarrow> LandingPage \<Rightarrow> sitemapEntry" where
  "pageEntry site page =
     \<lparr>url = site @ js ''/'' @ slug page, lastModified = asDate (updatedAt page),
      changeFrequency = ''monthly'', priority = 8\<rparr>"

text \<open>\<open>now\<close> is the value of \<open>new Date()\<close>.\<close>

definition staticPages :: "jsstring \<Rightarrow> jsDate \<Rightarrow> sitemapEntry list" where
  "staticPages site now =
     [\<lparr>url = site, lastModified = now, changeFrequency = ''weekly'', priority = 10\<rparr>,
      \<lparr>url = site @ js ''/about'', lastModified = now, changeFrequency = ''monthly'', priority = 7\<rparr>,
      \<lparr>url = site @ js ''/privacy'', lastModified = now, changeFrequency = ''yearly'', priority = 5\<rparr>,
      \<lparr>url = site @ js ''/terms'', lastModified = now, changeFrequency = ''yearly'', priority = 5\<rparr>,
      \<lparr>url = site @ js ''/plans'', lastModified = now, changeFrequency = ''monthly'', priority = 7\<rparr>]"

text \<open>
  \<open>sitemap\<close> gets the outcome of \<open>await getPublishedLandingPages()\<close>: the pages, or
  the exception the call threw, which the \<open>catch\<close> block handles.
\<close>

definition sitemap :: "jsstring \<Rightarrow> jsDate \<Rightarrow> exn + LandingPage list \<Rightarrow> sitemapEntry list" where
  "sitemap site now outcome =
     (case outcome of
        Inr pages \<Rightarrow> staticPages site now @ map (pageEntry site) pages
      | Inl error \<Rightarrow>
          [\<lparr>url = site, lastModified = now, changeFrequency = ''weekly'', priority = 10\<rparr>])"

section \<open>Properties of the validator\<close>

lemma startsWith_single: "s \<noteq> [] \<Longrightarrow> startsWith s [c] = (hd s = c)"
  by (cases s) (simp_all add: startsWith_def)

lemma endsWith_single: "s \<noteq> [] \<Longrightarrow> endsWith s [c] = (last s = c)"
proof (induction s rule: rev_induct)
  case Nil
  then show ?case by simp
next
  case (snoc x xs)
  then show ?case by (simp add: endsWith_def)
qed

lemma js_hyphen: "js ''-'' = [hyphen]"
  by (simp add: js_def hyphen_def)

text \<open>
  C4. \<open>validateSlug\<close> returns no error exactly for the strings that match
  \<open>^[a-z0-9-]+$\<close>, have between 2 and 50 characters and neither start nor end with a
  hyphen; every other string, the empty one included, gets a message.
\<close>

theorem validateSlug_accepts_iff:
  "(validateSlug s = None) =
     (slugPattern s \<and> 2 \<le> length s \<and> length s \<le> 50 \<and> hd s \<noteq> hyphen \<and> last s \<noteq> hyphen)
   \<and> validateSlug [] \<noteq> None"
proof -
  have "s \<noteq> [] \<Longrightarrow> (startsWith s (js ''-'') \<or> endsWith s (js ''-'')) = (hd s = hyphen \<or> last s = hyphen)"
    by (simp add: js_hyphen startsWith_single endsWith_single)
  then show ?thesis
    by (auto simp: validateSlug_def slugPattern_def)
qed

theorem validateSlug_accepts_iff_witness:
  "validateSlug (js ''cafe-noon'') = None \<and> validateSlug (js ''-cafe'') \<noteq> None
   \<and> validateSlug (js ''Cafe'') \<noteq> None"
  using validateSlug_accepts_iff [of "js ''cafe-noon''"]
        validateSlug_accepts_iff [of "js ''-cafe''"]
        validateSlug_accepts_iff [of "js ''Cafe''"]
  by (simp add: js_def slugPattern_def isSlugChar_def isLowerAscii_def isDigit_def hyphen_def)

subsection \<open>The HTML body\<close>




subsection \<open>The length limit of the required fields\<close>

lemma map_of_record_error_other:
  "k \<noteq> k' \<Longrightarrow> map_of (record_error k r errors) k' = map_of errors k'"
  by (cases r) (simp_all add: record_error_def map_add_def split: option.splits)

lemma map_of_record_error_same:
  "map_of errors k = None \<Longrightarrow> map_of (record_error k r errors) k = r"
  by (cases r) (simp_all add: record_error_def map_add_def)

lemma kept_by_dropWhile: "c \<in> set s \<Longrightarrow> \<not> P c \<Longrightarrow> c \<in> set (dropWhile P s)"
  by (induction s) auto

lemma trim_not_blank: "c \<in> set s \<Longrightarrow> \<not> isWhiteSpace c \<Longrightarrow> trim s \<noteq> []"
proof -
  assume c: "c \<in> set s" "\<not> isWhiteSpace c"
  then have "c \<in> set (rev (dropWhile isWhiteSpace s))"
    by (simp add: kept_by_dropWhile)
  then have "c \<in> set (dropWhile isWhiteSpace (rev (dropWhile isWhiteSpace s)))"
    using c(2) by (rule kept_by_dropWhile)
  then have "dropWhile isWhiteSpace (rev (dropWhile isWhiteSpace s)) \<noteq> []"
    by (metis empty_iff empty_set)
  then show ?thesis
    unfolding trim_def trimStart_def trimEnd_def rev_is_Nil_conv .
qed

lemma validateRequired_not_blank:
  "trim v \<noteq> [] \<Longrightarrow>
   validateRequired v name
     = (if 500 < length v then Some (name @ '' must not exceed 500 characters'') else None)"
  by (auto simp: validateRequired_def trim_def trimStart_def trimEnd_def)

text \<open>
  C10. Each of the six required text fields has a maximum of 500 characters. On the
  reading of the thirteen tests as "assign, then test" (as they are written, with
  \<open>:=\<close>, the function does not compile), \<open>validateLandingPageForm\<close> reports such a
  field whose value is not blank exactly when the value is longer than 500 characters,
  with the message of the limit; a value that is not blank and has up to 500 characters
  is not reported.
\<close>

theorem validateLandingPageForm_limit_500:
  assumes "trim v \<noteq> []"
  shows "(businessName d = v \<longrightarrow>
            map_of (validateLandingPageForm B d) ''businessName''
              = (if 500 < length v then Some ''Business name must not exceed 500 characters''
                 else None))
       \<and> (metaTitle d = v \<longrightarrow>
            map_of (validateLandingPageForm B d) ''metaTitle''
              = (if 500 < length v then Some ''Meta title must not exceed 500 characters''
                 else None))
       \<and> (ogTitle d = v \<longrightarrow>
            map_of (validateLandingPageForm B d) ''ogTitle''
              = (if 500 < length v then Some ''OG title must not exceed 500 characters''
                 else None))
       \<and> (ogDescription d = v \<longrightarrow>
            map_of (validateLandingPageForm B d) ''ogDescription''
              = (if 500 < length v then Some ''OG description must not exceed 500 characters''
                 else None))
       \<and> (businessCategory d = v \<longrightarrow>
            map_of (validateLandingPageForm B d) ''businessCategory''
              = (if 500 < length v then Some ''Business category must not exceed 500 characters''
                 else None))
       \<and> (businessLocation d = v \<longrightarrow>
            map_of (validateLandingPageForm B d) ''businessLocation''
              = (if 500 < length v then Some ''Business location must not exceed 500 characters''
                 else None))"
  using assms
  by (simp add: validateLandingPageForm_def Let_def map_of_record_error_other
      map_of_record_error_same validateRequired_not_blank)

theorem validateLandingPageForm_limit_500_witness:
  "map_of (validateLandingPageForm plainBuiltins (blankForm\<lparr>businessName := replicate 501 97\<rparr>))
          ''businessName''
     = Some ''Business name must not exceed 500 characters''
   \<and> map_of (validateLandingPageForm plainBuiltins (blankForm\<lparr>businessName := replicate 500 97\<rparr>))
          ''businessName''
     = None"
proof -
  have b: "\<not> isWhiteSpace 97" by (simp add: isWhiteSpace_def)
  have "(97 :: jschar) \<in> set (replicate 501 97)" by simp
  then have long: "trim (replicate 501 (97 :: jschar)) \<noteq> []"
    using b by (rule trim_not_blank)
  have "(97 :: jschar) \<in> set (replicate 500 97)" by simp
  then have short: "trim (replicate 500 (97 :: jschar)) \<noteq> []"
    using b by (rule trim_not_blank)
  show ?thesis
    using validateLandingPageForm_limit_500
            [OF long, of "blankForm\<lparr>businessName := replicate 501 97\<rparr>" plainBuiltins]
          validateLandingPageForm_limit_500
            [OF short, of "blankForm\<lparr>businessName := replicate 500 97\<rparr>" plainBuiltins]
    by simp
qed

subsection \<open>The validator on a request body\<close>

lemma applied_text:
  "isText v \<Longrightarrow>
   applied validate other v = Inr (validate (case v of Some (VStr s) \<Rightarrow> s | _ \<Rightarrow> []))"
  by (auto simp: isText_def applied_def split: option.splits fvalue.splits)

lemma optional_error_field:
  "validate [] = None \<Longrightarrow>
   optional_error validate (optionalField b field) = validate (stringField b field)"
  by (auto simp: optional_error_def optionalField_def stringField_def
      split: option.splits fvalue.splits)

text \<open>
  On a body whose form fields are strings or absent nothing throws, and the errors are
  those of the function at its declared type.
\<close>

lemma validateLandingPageForm_any_wellTyped:
  assumes "wellTyped b"
  shows "validateLandingPageForm_any B b = Inr (validateLandingPageForm B (formOfBody b))"
proof -
  have phone: "validatePhone [] = None" by (simp add: validatePhone_def)
  have mail: "validateEmail [] = None" by (simp add: validateEmail_def)
  have web: "validateUrl B [] = None" by (simp add: validateUrl_def)
  from assms have t:
    "isText (b ''businessName'')" "isText (b ''slug'')" "isText (b ''metaTitle'')"
    "isText (b ''metaDescription'')" "isText (b ''ogTitle'')" "isText (b ''ogDescription'')"
    "isText (b ''ogImage'')" "isText (b ''businessCategory'')"
    "isText (b ''businessLocation'')" "isText (b ''htmlContent'')"
    "isText (b ''businessPhone'')" "isText (b ''businessEmail'')"
    "isText (b ''businessWebsite'')"
    by (simp_all add: wellTyped_def formFields_def)
  show ?thesis
    by (simp add: validateLandingPageForm_any_def formChecks_def andThen_def
        applied_text [OF t(1)] applied_text [OF t(2)] applied_text [OF t(3)]
        applied_text [OF t(4)] applied_text [OF t(5)] applied_text [OF t(6)]
        applied_text [OF t(7)] applied_text [OF t(8)] applied_text [OF t(9)]
        applied_text [OF t(10)] applied_text [OF t(11)] applied_text [OF t(12)]
        applied_text [OF t(13)]
        validateLandingPageForm_def Let_def formOfBody_def
        optional_error_field [where validate = validatePhone, OF phone]
        optional_error_field [where validate = validateEmail, OF mail]
        optional_error_field [where validate = "validateUrl B", OF web] stringField_def)
qed

text \<open>
  On a body with a field that is not a string the two differ: a number as the business
  name makes \<open>value.trim()\<close> throw, where the empty string would be reported as missing.
\<close>

lemma validateLandingPageForm_any_number:
  "validateLandingPageForm_any B [''businessName'' \<mapsto> VNum 123] = Inl TypeError"
  by (simp add: validateLandingPageForm_any_def formChecks_def andThen_def applied_def
      notAString_def truthy_def)

lemma runChecks_keeps_errors:
  "runChecks checks b errors = Inr out \<Longrightarrow> errors \<noteq> [] \<Longrightarrow> out \<noteq> []"
proof (induction checks b errors rule: runChecks.induct)
  case (1 b errors)
  then show ?case by simp
next
  case (2 field check rest b errors)
  from "2.prems"(1) obtain r where r: "check (b field) = Inr r"
    and rest: "runChecks rest b (record_error field r errors) = Inr out"
    by (auto simp: andThen_def split: sum.splits)
  from "2.prems"(2) have "record_error field r errors \<noteq> []"
    by (cases r) (simp_all add: record_error_def)
  with "2.IH" r rest show ?case by blast
qed

text \<open>A body that passes the validation has a string as its slug.\<close>

lemma validated_slug_is_text:
  assumes "validateLandingPageForm_any B b = Inr []"
  shows "\<exists>s. b ''slug'' = Some (VStr s)"
proof (rule ccontr)
  assume no: "\<nexists>s. b ''slug'' = Some (VStr s)"
  obtain check rest where split:
    "formChecks B = (''businessName'', check) # (''slug'', applied validateSlug slugNotAString) # rest"
    by (simp add: formChecks_def)
  from assms obtain r1 where
    "andThen (applied validateSlug slugNotAString (b ''slug''))
       (\<lambda>r. runChecks rest b (record_error ''slug'' r (record_error ''businessName'' r1 [])))
     = Inr []"
    by (auto simp: validateLandingPageForm_any_def split andThen_def split: sum.splits)
  then obtain r2 where r2: "applied validateSlug slugNotAString (b ''slug'') = Inr r2"
    and rest: "runChecks rest b (record_error ''slug'' r2 (record_error ''businessName'' r1 []))
                 = Inr []"
    by (auto simp: andThen_def split: sum.splits)
  from no r2 have "r2 \<noteq> None"
    by (auto simp: applied_def slugNotAString_def validateSlug_def
        split: option.splits fvalue.splits if_splits)
  then have "record_error ''slug'' r2 (record_error ''businessName'' r1 []) \<noteq> []"
    by (cases r2) (simp_all add: record_error_def)
  with rest runChecks_keeps_errors show False by blast
qed

subsection \<open>The image URL\<close>

lemma startsWith_iff: "startsWith s p = (\<exists>b. s = p @ b)"
proof
  assume "startsWith s p"
  then have "s = p @ drop (length p) s"
    by (metis append_take_drop_id startsWith_def)
  then show "\<exists>b. s = p @ b" ..
next
  assume "\<exists>b. s = p @ b"
  then show "startsWith s p" by (auto simp: startsWith_def)
qed

lemma endsWith_iff: "endsWith s p = (\<exists>a. s = a @ p)"
proof
  assume "endsWith s p"
  then have "s = take (length s - length p) s @ p"
    by (metis append_take_drop_id endsWith_def)
  then show "\<exists>a. s = a @ p" ..
next
  assume "\<exists>a. s = a @ p"
  then show "endsWith s p" by (auto simp: endsWith_def)
qed

lemma includesStr_iff: "includesStr s p = (\<exists>a b. s = a @ p @ b)"
proof (induction s)
  case Nil
  then show ?case by auto
next
  case (Cons c cs)
  have "(\<exists>a b. c # cs = a @ p @ b) = ((\<exists>b. c # cs = p @ b) \<or> (\<exists>a b. cs = a @ p @ b))"
  proof
    assume "\<exists>a b. c # cs = a @ p @ b"
    then obtain a b where ab: "c # cs = a @ p @ b" by blast
    show "(\<exists>b. c # cs = p @ b) \<or> (\<exists>a b. cs = a @ p @ b)"
    proof (cases a)
      case Nil
      with ab show ?thesis by auto
    next
      case (Cons x a')
      with ab have "cs = a' @ p @ b" by simp
      then show ?thesis by blast
    qed
  next
    assume "(\<exists>b. c # cs = p @ b) \<or> (\<exists>a b. cs = a @ p @ b)"
    then show "\<exists>a b. c # cs = a @ p @ b"
    proof
      assume "\<exists>b. c # cs = p @ b"
      then obtain b where "c # cs = [] @ p @ b" by auto
      then show ?thesis by blast
    next
      assume "\<exists>a b. cs = a @ p @ b"
      then obtain a b where "c # cs = (c # a) @ p @ b" by auto
      then show ?thesis by blast
    qed
  qed
  with Cons show ?case by (simp add: startsWith_iff)
qed

text \<open>
  What \<open>validateOgImage\<close> tests: the URL parses, and its lower-cased text ends in one of
  the five extensions or the text holds \<open>firebaseapp.com\<close> or \<open>firebase.google.com\<close>
  somewhere, in this very spelling.
\<close>

lemma validateOgImage_accepts_iff:
  "(validateOgImage B u = None)
     = (u \<noteq> [] \<and> (\<exists>parsed. newURL B u = Some parsed)
        \<and> ((\<exists>a. toLowerCase B u = a @ js ''.jpg'') \<or> (\<exists>a. toLowerCase B u = a @ js ''.jpeg'')
           \<or> (\<exists>a. toLowerCase B u = a @ js ''.png'') \<or> (\<exists>a. toLowerCase B u = a @ js ''.gif'')
           \<or> (\<exists>a. toLowerCase B u = a @ js ''.webp'')
           \<or> (\<exists>a b. u = a @ js ''firebaseapp.com'' @ b)
           \<or> (\<exists>a b. u = a @ js ''firebase.google.com'' @ b)))"
proof -
  have ext: "hasValidExt B u
     = ((\<exists>a. toLowerCase B u = a @ js ''.jpg'') \<or> (\<exists>a. toLowerCase B u = a @ js ''.jpeg'')
        \<or> (\<exists>a. toLowerCase B u = a @ js ''.png'') \<or> (\<exists>a. toLowerCase B u = a @ js ''.gif'')
        \<or> (\<exists>a. toLowerCase B u = a @ js ''.webp''))"
    by (simp add: hasValidExt_def validExtensions_def endsWith_iff)
  have "(validateOgImage B u = None)
     = (u \<noteq> [] \<and> newURL B u \<noteq> None
        \<and> (hasValidExt B u \<or> includesStr u (js ''firebaseapp.com'')
            \<or> includesStr u (js ''firebase.google.com'')))"
    by (auto simp: validateOgImage_def validateUrl_def split: option.splits)
  then show ?thesis
    unfolding ext includesStr_iff by auto
qed

text \<open>
  C5. An image URL is to be accepted exactly when it parses and ends in a known
  extension or belongs to an allow-listed hosting domain; the message of the code itself
  asks for "a direct image file or Firebase URL". The test for the hosting domain misses
  that in both directions. \<open>https://evil.example/firebaseapp.com\<close> is on the host
  \<open>evil.example\<close>, has no image extension, and is accepted, since the name of the domain
  is looked for anywhere in the text. \<open>https://X.FIREBASEAPP.COM/a\<close> is on a host of
  the domain \<open>firebaseapp.com\<close> and is rejected, since the name is looked for in this
  spelling only, while the test for the extension lower-cases the text first.
\<close>

theorem validateOgImage_ignores_host:
  "validateOgImage plainBuiltins (js ''https://evil.example/firebaseapp.com'') = None
   \<and> \<not> ogImageRule plainBuiltins (js ''https://evil.example/firebaseapp.com'')
   \<and> validateOgImage plainBuiltins (js ''https://X.FIREBASEAPP.COM/a'')
       = Some ''Image URL should be a direct image file (jpg, png, gif, webp) or Firebase URL''
   \<and> ogImageRule plainBuiltins (js ''https://X.FIREBASEAPP.COM/a'')"
  by (simp add: validateOgImage_def validateUrl_def ogImageRule_def hasValidExt_def
      validExtensions_def belongsToAllowListedDomain_def allowListedDomains_def
      plainBuiltins_def plainURL_def js_def startsWith_def endsWith_def asciiLower_def
      isUpperAscii_def isLowerAscii_def)

subsection \<open>The generated slug\<close>

lemma replaceRuns_none: "list_all (\<lambda>c. \<not> P c) s \<Longrightarrow> replaceRuns P r s = s"
  by (induction s) auto

lemma replaceRuns_set: "set (replaceRuns P r s) \<subseteq> set r \<union> {c \<in> set s. \<not> P c}"
proof (induction P r s rule: replaceRuns.induct)
  case (1 P r)
  then show ?case by simp
next
  case (2 P r c cs)
  have "set (dropWhile P cs) \<subseteq> set cs"
    by (simp add: set_dropWhileD subsetI)
  with 2 show ?case by (auto split: if_splits)
qed

lemma isSlugOut_not_space: "isSlugOut c \<Longrightarrow> \<not> isWhiteSpace c"
  by (auto simp: isSlugOut_def isWhiteSpace_def isLowerAscii_def isDigit_def hyphen_def
      word_le_nat_alt)

lemma isSlugOut_ascii: "isSlugOut c \<Longrightarrow> c < 128 \<and> \<not> isUpperAscii c"
  by (auto simp: isSlugOut_def isUpperAscii_def isLowerAscii_def isDigit_def hyphen_def
      word_le_nat_alt word_less_nat_alt)

lemma isSlugOut_kept: "isSlugOut c \<Longrightarrow> isWordChar c \<or> isWhiteSpace c \<or> c = hyphen"
  by (auto simp: isSlugOut_def isWordChar_def)

lemma collapse_starts_plain:
  "s \<noteq> [] \<Longrightarrow> hd s \<noteq> hyphen \<Longrightarrow>
   replaceRuns (\<lambda>c. c = hyphen) [hyphen] s \<noteq> []
   \<and> hd (replaceRuns (\<lambda>c. c = hyphen) [hyphen] s) \<noteq> hyphen"
  by (cases s) auto

lemma noDoubleHyphen_collapse: "noDoubleHyphen (replaceRuns (\<lambda>c. c = hyphen) [hyphen] s)"
proof (induction "\<lambda>c. c = hyphen" "[hyphen]" s rule: replaceRuns.induct)
  case 1
  then show ?case by simp
next
  case (2 c cs)
  show ?case
  proof (cases "c = hyphen")
    case True
    let ?t = "dropWhile (\<lambda>c. c = hyphen) cs"
    have t: "?t = [] \<or> hd ?t \<noteq> hyphen"
      using hd_dropWhile[of "\<lambda>c. c = hyphen" cs] by auto
    have ih: "noDoubleHyphen (replaceRuns (\<lambda>c. c = hyphen) [hyphen] ?t)"
      using 2(1) True by simp
    show ?thesis
    proof (cases "?t = []")
      case True
      have "replaceRuns (\<lambda>c. c = hyphen) [hyphen] (c # cs) = [hyphen]"
        using \<open>c = hyphen\<close> True by (simp del: dropWhile_eq_Nil_conv)
      then show ?thesis by simp
    next
      case False
      with t collapse_starts_plain[of ?t]
      obtain x xs where "replaceRuns (\<lambda>c. c = hyphen) [hyphen] ?t = x # xs" "x \<noteq> hyphen"
        by (cases "replaceRuns (\<lambda>c. c = hyphen) [hyphen] ?t") auto
      with ih \<open>c = hyphen\<close> show ?thesis by simp
    qed
  next
    case False
    with 2(2) show ?thesis
      by (cases "replaceRuns (\<lambda>c. c = hyphen) [hyphen] cs") auto
  qed
qed

lemma collapse_fixed: "noDoubleHyphen s \<Longrightarrow> replaceRuns (\<lambda>c. c = hyphen) [hyphen] s = s"
proof (induction s rule: noDoubleHyphen.induct)
  case (1 a b cs)
  then show ?case by auto
qed auto

lemma noDoubleHyphen_tl: "noDoubleHyphen (a # s) \<Longrightarrow> noDoubleHyphen s"
  by (cases s) auto

lemma noDoubleHyphen_dropWhile: "noDoubleHyphen s \<Longrightarrow> noDoubleHyphen (dropWhile P s)"
  by (induction s) (auto dest: noDoubleHyphen_tl)

lemma noDoubleHyphen_butlast: "noDoubleHyphen (s @ [a]) \<Longrightarrow> noDoubleHyphen s"
  by (induction s rule: noDoubleHyphen.induct) auto

lemma noDoubleHyphen_dropEnd:
  "noDoubleHyphen s \<Longrightarrow> noDoubleHyphen (rev (dropWhile P (rev s)))"
  by (induction s rule: rev_induct) (auto dest: noDoubleHyphen_butlast)

lemma noDoubleHyphen_strip: "noDoubleHyphen s \<Longrightarrow> noDoubleHyphen (stripHyphens s)"
  by (simp add: stripHyphens_def noDoubleHyphen_dropWhile noDoubleHyphen_dropEnd)

lemma dropEnd_fixed: "s = [] \<or> \<not> P (last s) \<Longrightarrow> rev (dropWhile P (rev s)) = s"
  by (induction s rule: rev_induct) auto

lemma dropWhile_fixed: "s = [] \<or> \<not> P (hd s) \<Longrightarrow> dropWhile P s = s"
  by (cases s) auto

lemma last_dropEnd:
  "rev (dropWhile P (rev s)) = [] \<or> \<not> P (last (rev (dropWhile P (rev s))))"
  by (induction s rule: rev_induct) auto

lemma hd_dropEnd:
  "s = [] \<or> \<not> P (hd s) \<Longrightarrow>
   rev (dropWhile P (rev s)) = [] \<or> \<not> P (hd (rev (dropWhile P (rev s))))"
  by (induction s rule: rev_induct) (auto simp: hd_append split: if_splits)

lemma stripHyphens_ends:
  "stripHyphens s = []
   \<or> (hd (stripHyphens s) \<noteq> hyphen \<and> last (stripHyphens s) \<noteq> hyphen)"
  unfolding stripHyphens_def
  using last_dropEnd[of "\<lambda>c. c = hyphen" "dropWhile (\<lambda>c. c = hyphen) s"]
        hd_dropEnd[of "dropWhile (\<lambda>c. c = hyphen) s" "\<lambda>c. c = hyphen"]
        hd_dropWhile[of "\<lambda>c. c = hyphen" s]
  by auto

lemma stripHyphens_fixed:
  "s = [] \<or> (hd s \<noteq> hyphen \<and> last s \<noteq> hyphen) \<Longrightarrow> stripHyphens s = s"
  unfolding stripHyphens_def by (auto simp: dropWhile_fixed dropEnd_fixed)

lemma set_stripHyphens: "set (stripHyphens s) \<subseteq> set s"
  unfolding stripHyphens_def
  by (metis (no_types, lifting) set_dropWhileD set_rev subsetI)

lemma trim_fixed: "list_all (\<lambda>c. \<not> isWhiteSpace c) s \<Longrightarrow> trim s = s"
proof -
  assume a: "list_all (\<lambda>c. \<not> isWhiteSpace c) s"
  then have "dropWhile isWhiteSpace s = s"
    by (cases s) auto
  moreover from a have "rev (dropWhile isWhiteSpace (rev s)) = s"
    by (cases s rule: rev_cases) auto
  ultimately show ?thesis
    by (simp add: trim_def trimStart_def trimEnd_def)
qed

lemma set_trim: "set (trim s) \<subseteq> set s"
  unfolding trim_def trimStart_def trimEnd_def
  by (metis (no_types, lifting) set_dropWhileD set_rev subsetI)

lemma generateSlug_slugText:
  assumes "lowercasing (toLowerCase B)"
  shows "slugText (generateSlug B t)"
proof -
  define lowered where "lowered = toLowerCase B t"
  define cleaned where
    "cleaned = filter (\<lambda>c. isWordChar c \<or> isWhiteSpace c \<or> c = hyphen) (trim lowered)"
  define hyphenated where "hyphenated = replaceRuns isWhiteSpace [hyphen] cleaned"
  define collapsed where "collapsed = replaceRuns (\<lambda>c. c = hyphen) [hyphen] hyphenated"
  have g: "generateSlug B t = stripHyphens collapsed"
    by (simp add: generateSlug_def Let_def js_hyphen lowered_def cleaned_def
        hyphenated_def collapsed_def)
  have "\<forall>c \<in> set lowered. \<not> isUpperAscii c"
    using assms by (simp add: lowercasing_def lowered_def list_all_iff)
  then have "\<forall>c \<in> set cleaned. isSlugOut c \<or> isWhiteSpace c"
    using set_trim[of lowered]
    by (auto simp: cleaned_def isSlugOut_def isWordChar_def)
  then have "\<forall>c \<in> set hyphenated. isSlugOut c"
    using replaceRuns_set[of isWhiteSpace "[hyphen]" cleaned]
    by (auto simp: hyphenated_def isSlugOut_def)
  then have "\<forall>c \<in> set collapsed. isSlugOut c"
    using replaceRuns_set[of "\<lambda>c. c = hyphen" "[hyphen]" hyphenated]
    by (auto simp: collapsed_def isSlugOut_def)
  then have a: "list_all isSlugOut (stripHyphens collapsed)"
    using set_stripHyphens[of collapsed] by (auto simp: list_all_iff)
  have b: "noDoubleHyphen (stripHyphens collapsed)"
    by (simp add: collapsed_def noDoubleHyphen_collapse noDoubleHyphen_strip)
  show ?thesis
    unfolding slugText_def g using a b stripHyphens_ends[of collapsed] by blast
qed

lemma generateSlug_fixed:
  assumes "lowercasing (toLowerCase B)" and "slugText s"
  shows "generateSlug B s = s"
proof -
  from assms(2) have chars: "list_all isSlugOut s" and nd: "noDoubleHyphen s"
    and ends: "s = [] \<or> (hd s \<noteq> hyphen \<and> last s \<noteq> hyphen)"
    by (simp_all add: slugText_def)
  from chars have "list_all (\<lambda>c. c < 128 \<and> \<not> isUpperAscii c) s"
    by (induction s) (simp_all add: isSlugOut_ascii)
  with assms(1) have 1: "toLowerCase B s = s"
    by (simp add: lowercasing_def)
  from chars have nows: "list_all (\<lambda>c. \<not> isWhiteSpace c) s"
    by (induction s) (simp_all add: isSlugOut_not_space)
  then have 2: "trim s = s" by (rule trim_fixed)
  from chars have 3: "filter (\<lambda>c. isWordChar c \<or> isWhiteSpace c \<or> c = hyphen) s = s"
    by (induction s) (simp_all add: isSlugOut_kept)
  from nows have 4: "replaceRuns isWhiteSpace [hyphen] s = s" by (rule replaceRuns_none)
  from nd have 5: "replaceRuns (\<lambda>c. c = hyphen) [hyphen] s = s" by (rule collapse_fixed)
  from ends have 6: "stripHyphens s = s" by (rule stripHyphens_fixed)
  show ?thesis
    by (simp add: generateSlug_def Let_def js_hyphen 1 2 3 4 5 6)
qed

lemma asciiLower_not_upper: "\<not> isUpperAscii (asciiLower c)"
  by (auto simp: asciiLower_def isUpperAscii_def) uint_arith

lemma lowercasing_ascii: "lowercasing (map asciiLower)"
  unfolding lowercasing_def
proof (intro conjI allI impI)
  fix t show "list_all (\<lambda>c. \<not> isUpperAscii c) (map asciiLower t)"
    by (induction t) (simp_all add: asciiLower_not_upper)
next
  fix t assume "list_all (\<lambda>c. c < 128 \<and> \<not> isUpperAscii c) t"
  then show "map asciiLower t = t"
    by (induction t) (simp_all add: asciiLower_def)
qed

text \<open>
  C8. \<open>generateSlug\<close> is idempotent: applied to its own output it returns the same
  string, for every input, whatever lower-casing the platform provides.
\<close>

theorem generateSlug_idempotent:
  "lowercasing (toLowerCase B) \<Longrightarrow> generateSlug B (generateSlug B t) = generateSlug B t"
  by (rule generateSlug_fixed) (simp_all add: generateSlug_slugText)

theorem generateSlug_idempotent_witness:
  "generateSlug plainBuiltins (js ''  Cafe  Noon -- & Co!  '') = js ''cafe-noon-co''
   \<and> generateSlug plainBuiltins (generateSlug plainBuiltins (js ''  Cafe  Noon -- & Co!  ''))
       = js ''cafe-noon-co''"
proof -
  have l: "lowercasing (toLowerCase plainBuiltins)"
    by (simp add: plainBuiltins_def lowercasing_ascii)
  have e: "generateSlug plainBuiltins (js ''  Cafe  Noon -- & Co!  '') = js ''cafe-noon-co''"
    by (simp add: plainBuiltins_def generateSlug_def js_def trim_def trimStart_def
        trimEnd_def asciiLower_def isUpperAscii_def isWhiteSpace_def isWordChar_def
        isLowerAscii_def isDigit_def hyphen_def stripHyphens_def)
  show ?thesis
    using generateSlug_idempotent [OF l, of "js ''  Cafe  Noon -- & Co!  ''"] e by simp
qed

section \<open>Properties of the record store adapter\<close>

lemma getLandingPageById_found:
  "adminDb w = Some db \<Longrightarrow> map_of (landingPages db) i = Some d \<Longrightarrow>
   getLandingPageById w i = Inr (Some (withId i d))"
  by (simp add: getLandingPageById_def theDb_def andThen_def)

lemma updateLandingPage_found:
  "adminDb w = Some db \<Longrightarrow> map_of (landingPages db) i = Some d \<Longrightarrow>
   updateLandingPage w i data who now
     = Inr (True, w\<lparr>adminDb := Some (db\<lparr>landingPages :=
              updateDoc i (updateData (withId i d) data who now) (landingPages db)\<rparr>)\<rparr>)"
  by (simp add: updateLandingPage_def getLandingPageById_found andThen_def theDb_def)

lemma map_of_updateDoc:
  "map_of (updateDoc i written c) i = map_option (\<lambda>d. d ++ written) (map_of c i)"
  by (induction c) (auto simp: updateDoc_def)

lemma updateData_without_status:
  assumes "data ''status'' = None" and "data ''publishedAt'' = None"
      and "truthy (old ''isPublished'')"
  shows "updateData old data who now ''status'' = None
       \<and> updateData old data who now ''isPublished'' = Some (VBool False)
       \<and> updateData old data who now ''publishedAt'' = Some VNull"
  using assms by (simp add: updateData_def Let_def map_add_def)

lemma createLandingPage_invariant: "publishInvariant (pageData data who now)"
  by (simp add: publishInvariant_def pageData_def nonNull_def truthy_def)

lemma updateLandingPage_keeps_invariant:
  assumes "publishInvariant old" and "data ''status'' \<noteq> None" and "data ''publishedAt'' = None"
  shows "publishInvariant (old ++ updateData (withId i old) data who now)"
proof -
  have isP: "withId i old ''isPublished'' = old ''isPublished''"
    by (simp add: withId_def map_add_def split: option.splits)
  from assms(2) obtain st where st: "data ''status'' = Some st" by blast
  show ?thesis
  proof (cases "st = published")
    case True
    with assms(1,3) st isP show ?thesis
      by (auto simp: publishInvariant_def updateData_def Let_def map_add_def nonNull_def
          truthy_def split: option.splits)
  next
    case False
    with assms(1,3) st isP show ?thesis
      by (auto simp: publishInvariant_def updateData_def Let_def map_add_def nonNull_def
          truthy_def split: option.splits)
  qed
qed

text \<open>
  C1. A record produced by create satisfies the invariant, and so does the result of an
  update whose data names a status (the two lemmas above). An update whose data names
  no status breaks it: applied to the published page \<open>p1\<close>, a change of the title alone
  leaves the status published, sets \<open>isPublished\<close> to false and clears \<open>publishedAt\<close>.
\<close>

theorem updateLandingPage_without_status_breaks_invariant:
  "publishInvariant cafeNoon
   \<and> storedPage exampleWorld (js ''p1'') = Some cafeNoon
   \<and> (\<exists>w' d'. updateLandingPage exampleWorld (js ''p1'') [''title'' \<mapsto> VStr (js ''Cafe'')]
                  (js ''admin1'') 3000 = Inr (True, w')
          \<and> storedPage w' (js ''p1'') = Some d'
          \<and> d' ''status'' = Some published
          \<and> d' ''isPublished'' = Some (VBool False)
          \<and> d' ''publishedAt'' = Some VNull
          \<and> \<not> publishInvariant d')"
proof -
  have 1: "publishInvariant cafeNoon"
    by (simp add: cafeNoon_def createLandingPage_invariant)
  have 2: "storedPage exampleWorld (js ''p1'') = Some cafeNoon"
    by (simp add: storedPage_def exampleWorld_def js_def)
  have old: "getLandingPageById exampleWorld (js ''p1'') = Inr (Some (withId (js ''p1'') cafeNoon))"
    by (simp add: getLandingPageById_def theDb_def andThen_def exampleWorld_def js_def)
  define written where
    "written = updateData (withId (js ''p1'') cafeNoon) [''title'' \<mapsto> VStr (js ''Cafe'')]
                 (js ''admin1'') 3000"
  define w' where
    "w' = exampleWorld\<lparr>adminDb := Some \<lparr>landingPages =
             [(js ''p1'', cafeNoon ++ written), (js ''p2'', teaHouse)], auditLogs = []\<rparr>\<rparr>"
  have 3: "updateLandingPage exampleWorld (js ''p1'') [''title'' \<mapsto> VStr (js ''Cafe'')]
             (js ''admin1'') 3000 = Inr (True, w')"
    unfolding updateLandingPage_def old
    by (simp add: andThen_def theDb_def exampleWorld_def updateDoc_def w'_def written_def js_def)
  have 4: "storedPage w' (js ''p1'') = Some (cafeNoon ++ written)"
    by (simp add: storedPage_def w'_def)
  have wr: "written ''status'' = None \<and> written ''isPublished'' = Some (VBool False)
            \<and> written ''publishedAt'' = Some VNull"
    by (simp add: written_def updateData_def Let_def withId_def cafeNoon_def pageData_def
        truthy_def published_def)
  have st: "cafeNoon ''status'' = Some published"
    by (simp add: cafeNoon_def pageData_def)
  have 5: "(cafeNoon ++ written) ''status'' = Some published
           \<and> (cafeNoon ++ written) ''isPublished'' = Some (VBool False)
           \<and> (cafeNoon ++ written) ''publishedAt'' = Some VNull"
    using wr st by (simp add: map_add_def)
  then have 6: "\<not> publishInvariant (cafeNoon ++ written)"
    by (simp add: publishInvariant_def nonNull_def)
  have "\<exists>w' d'. updateLandingPage exampleWorld (js ''p1'') [''title'' \<mapsto> VStr (js ''Cafe'')]
                  (js ''admin1'') 3000 = Inr (True, w')
          \<and> storedPage w' (js ''p1'') = Some d'
          \<and> d' ''status'' = Some published
          \<and> d' ''isPublished'' = Some (VBool False)
          \<and> d' ''publishedAt'' = Some VNull
          \<and> \<not> publishInvariant d'"
    using 3 4 5 6 by (intro exI[of _ w'] exI[of _ "cafeNoon ++ written"]) simp
  with 1 2 show ?thesis by (intro conjI)
qed

text \<open>
  C7. In a store where exactly one record holds the slug \<open>s\<close>, \<open>isSlugTaken\<close> answers
  false when that record's id is excluded, and true when no id or another id is
  excluded; for a slug no record holds it answers false whatever is excluded. Document
  ids are non-empty strings.
\<close>

theorem isSlugTaken_excludes_own_record:
  assumes "adminDb w = Some db"
  shows "(filter (\<lambda>(j, d). d ''slug'' = Some (VStr s)) (landingPages db) = [(i, page)] \<and> i \<noteq> []
            \<longrightarrow> isSlugTaken w s (Some i) = Inr False
                \<and> isSlugTaken w s None = Inr True
                \<and> (\<forall>other. other \<noteq> i \<longrightarrow> isSlugTaken w s (Some other) = Inr True))
       \<and> (filter (\<lambda>(j, d). d ''slug'' = Some (VStr s)) (landingPages db) = []
            \<longrightarrow> (\<forall>excludeId. isSlugTaken w s excludeId = Inr False))"
  using assms
  by (auto simp: isSlugTaken_def theDb_def andThen_def whereEq_def given_def
      split: option.splits)

theorem isSlugTaken_excludes_own_record_witness:
  "isSlugTaken exampleWorld (js ''cafe-noon'') (Some (js ''p1'')) = Inr False
   \<and> isSlugTaken exampleWorld (js ''cafe-noon'') None = Inr True
   \<and> isSlugTaken exampleWorld (js ''cafe-noon'') (Some (js ''p2'')) = Inr True
   \<and> isSlugTaken exampleWorld (js ''bakery'') (Some (js ''p1'')) = Inr False"
proof -
  have db: "adminDb exampleWorld
              = Some \<lparr>landingPages = [(js ''p1'', cafeNoon), (js ''p2'', teaHouse)], auditLogs = []\<rparr>"
    by (simp add: exampleWorld_def)
  have one: "filter (\<lambda>(j, d). d ''slug'' = Some (VStr (js ''cafe-noon'')))
               (landingPages \<lparr>landingPages = [(js ''p1'', cafeNoon), (js ''p2'', teaHouse)],
                              auditLogs = []\<rparr>) = [(js ''p1'', cafeNoon)]"
    by (simp add: cafeNoon_def teaHouse_def pageData_def js_def)
  have none: "filter (\<lambda>(j, d). d ''slug'' = Some (VStr (js ''bakery'')))
               (landingPages \<lparr>landingPages = [(js ''p1'', cafeNoon), (js ''p2'', teaHouse)],
                              auditLogs = []\<rparr>) = []"
    by (simp add: cafeNoon_def teaHouse_def pageData_def js_def)
  have ids: "js ''p1'' \<noteq> []" "js ''p2'' \<noteq> js ''p1''"
    by (simp_all add: js_def)
  show ?thesis
    using isSlugTaken_excludes_own_record [OF db, of "js ''cafe-noon''" "js ''p1''" cafeNoon]
          isSlugTaken_excludes_own_record [OF db, of "js ''bakery''"]
          one none ids
    by simp
qed

section \<open>Properties of the route handlers\<close>

lemma logAuditEvent_appends:
  "adminDb w = Some db \<Longrightarrow>
   logAuditEvent act who ttype tid snapshot ip now w
     = Inr (w\<lparr>adminDb := Some (db\<lparr>auditLogs := auditLogs db @
              [\<lparr>action = act, adminId = who, targetType = ttype, targetId = tid,
                changes = snapshot, ipAddress = ip, timestamp = now\<rparr>]\<rparr>)\<rparr>)"
  by (simp add: logAuditEvent_def andThen_def theDb_def)

text \<open>
  The update without a status is what \<open>PUT /api/landing-pages/[id]\<close> does with a valid
  body that has no \<open>status\<close> field: on a published page the request succeeds, and the
  stored page keeps its status while \<open>isPublished\<close> becomes false and \<open>publishedAt\<close>
  \<open>null\<close>.
\<close>

lemma PUT_without_status_clears_publishedAt:
  assumes db: "adminDb w = Some db"
      and d: "map_of (landingPages db) i = Some d"
      and valid: "validateLandingPageForm_any B b = Inr []"
      and sameSlug: "b ''slug'' = d ''slug''"
      and nostatus: "b ''status'' = None" "b ''publishedAt'' = None"
      and pub: "truthy (d ''isPublished'')"
  shows "\<exists>w' d'. PUT_landingPage B (Inr (Some a)) i (Some b) now ip w
                    = (json 200 (MessageBody ''Landing page updated successfully''), w')
               \<and> storedPage w' i = Some d'
               \<and> d' ''status'' = d ''status''
               \<and> d' ''isPublished'' = Some (VBool False)
               \<and> d' ''publishedAt'' = Some VNull"
proof -
  define written where "written = updateData (withId i d) b (uid a) now"
  define db1 where "db1 = db\<lparr>landingPages := updateDoc i written (landingPages db)\<rparr>"
  define w1 where "w1 = w\<lparr>adminDb := Some db1\<rparr>"
  define entry where
    "entry = \<lparr>action = ''page_updated'', adminId = uid a, targetType = ''landingPage'',
              targetId = i, changes = Some (withId i d, Some b), ipAddress = ip,
              timestamp = now\<rparr>"
  define w2 where "w2 = w1\<lparr>adminDb := Some (db1\<lparr>auditLogs := auditLogs db1 @ [entry]\<rparr>)\<rparr>"
  have page: "getLandingPageById w i = Inr (Some (withId i d))"
    using db d by (rule getLandingPageById_found)
  have slugKept: "b ''slug'' = withId i d ''slug''"
    using sameSlug by (simp add: withId_def map_add_def split: option.splits)
  have upd: "updateLandingPage w i b (uid a) now = Inr (True, w1)"
    using updateLandingPage_found [OF db d] by (simp add: w1_def db1_def written_def)
  have log: "logAuditEvent ''page_updated'' (uid a) ''landingPage'' i
               (Some (withId i d, Some b)) ip now w1 = Inr w2"
    using logAuditEvent_appends [of w1 db1] by (simp add: w1_def w2_def entry_def)
  have put: "PUT_landingPage B (Inr (Some a)) i (Some b) now ip w
               = (json 200 (MessageBody ''Landing page updated successfully''), w2)"
    unfolding PUT_landingPage_def
    by (simp add: andThen_def catch_def requestJson_def page valid slugKept upd log)
  have "truthy (withId i d ''isPublished'')"
    using pub by (auto simp: withId_def map_add_def truthy_def split: option.splits)
  then have wr: "written ''status'' = None \<and> written ''isPublished'' = Some (VBool False)
                 \<and> written ''publishedAt'' = Some VNull"
    unfolding written_def using nostatus by (intro updateData_without_status)
  have stored: "storedPage w2 i = Some (d ++ written)"
    by (simp add: storedPage_def w2_def w1_def db1_def map_of_updateDoc d)
  have "(d ++ written) ''status'' = d ''status''
        \<and> (d ++ written) ''isPublished'' = Some (VBool False)
        \<and> (d ++ written) ''publishedAt'' = Some VNull"
    using wr by (simp add: map_add_def)
  with put stored show ?thesis
    by (intro exI[of _ w2] exI[of _ "d ++ written"]) simp
qed

lemma withId_status: "d ''status'' = Some v \<Longrightarrow> withId i d ''status'' = Some v"
  by (simp add: withId_def map_add_def)

text \<open>
  C2. A publish toggle with \<open>publish = true\<close> on a record that is already published
  answers 200 with the current page and leaves everything as it was: the stored record
  (its status, \<open>publishedAt\<close> and \<open>updatedAt\<close> with it), the audit log, to which no entry
  is added, and the rebuild requests, of which none is sent.
\<close>

theorem POST_publish_already_published:
  assumes "adminDb w = Some db"
      and "map_of (landingPages db) i = Some d"
      and "d ''status'' = Some published"
      and "body ''publish'' = Some (VBool True)"
  shows "POST_publish (Inr (Some a)) i (Some body) now ip w
           = (json 200 (PublishBody ''Page is already published'' (withId i d)), w)"
proof -
  have page: "getLandingPageById w i = Inr (Some (withId i d))"
    using assms(1,2) by (rule getLandingPageById_found)
  have st: "withId i d ''status'' = Some (VStr (js ''published''))"
    using assms(3) by (simp add: withId_status published_def)
  then have same: "(withId i d)(''status'' \<mapsto> VStr (js ''published'')) = withId i d"
    by (rule map_upd_triv)
  show ?thesis
    unfolding POST_publish_def
    by (simp add: andThen_def catch_def requestJson_def assms(4) page st same)
qed

theorem POST_publish_already_published_witness:
  "POST_publish (Inr (Some \<lparr>uid = js ''admin1'', email = js ''a@kashpages.in''\<rparr>)) (js ''p1'')
     (Some [''publish'' \<mapsto> VBool True]) 5000 None exampleWorld
   = (json 200 (PublishBody ''Page is already published'' (withId (js ''p1'') cafeNoon)),
      exampleWorld)"
proof -
  have db: "adminDb exampleWorld
              = Some \<lparr>landingPages = [(js ''p1'', cafeNoon), (js ''p2'', teaHouse)], auditLogs = []\<rparr>"
    by (simp add: exampleWorld_def)
  have found: "map_of (landingPages \<lparr>landingPages = [(js ''p1'', cafeNoon), (js ''p2'', teaHouse)],
                                     auditLogs = []\<rparr>) (js ''p1'') = Some cafeNoon"
    by simp
  have st: "cafeNoon ''status'' = Some published"
    by (simp add: cafeNoon_def pageData_def)
  have b: "[''publish'' \<mapsto> VBool True] ''publish'' = Some (VBool True)"
    by simp
  show ?thesis
    using db found st b by (rule POST_publish_already_published)
qed

text \<open>
  C9. On each of the six endpoints of the admin surface (list, create, read, update,
  delete, publish toggle) a request without a valid admin session is answered 401, and
  the state is the one before the request. The answer does not depend on the body, on
  the query or on the store: not even an unreachable database or a body that does not
  parse changes it, so neither the validator nor the store adapter had a say.
\<close>

theorem unauthenticated_request_401:
  "GET_landingPages B (Inr None) searchParams w = (json 401 (ErrorBody ''Unauthorized''), w)
   \<and> POST_landingPages B (Inr None) body newId now ip w
       = (json 401 (ErrorBody ''Unauthorized''), w)
   \<and> GET_landingPage (Inr None) i w = (json 401 (ErrorBody ''Unauthorized''), w)
   \<and> PUT_landingPage B (Inr None) i body now ip w = (json 401 (ErrorBody ''Unauthorized''), w)
   \<and> DELETE_landingPage (Inr None) i now ip w = (json 401 (ErrorBody ''Unauthorized''), w)
   \<and> POST_publish (Inr None) i body now ip w = (json 401 (ErrorBody ''Unauthorized''), w)"
  by (simp add: GET_landingPages_def POST_landingPages_def GET_landingPage_def
      PUT_landingPage_def DELETE_landingPage_def POST_publish_def
      andThen_def catch_def unauthorized_def)

theorem unauthenticated_request_401_witness:
  "httpStatus (fst (POST_landingPages plainBuiltins (Inr None) None (js ''p3'') 5000 None
                      \<lparr>adminDb = None, rebuildRequests = 0\<rparr>)) = 401
   \<and> snd (PUT_landingPage plainBuiltins (Inr None) (js ''p1'') (Some Map.empty) 5000 None
            exampleWorld) = exampleWorld"
  using unauthenticated_request_401
          [where B = plainBuiltins and body = None and newId = "js ''p3''" and now = 5000
             and ip = None and w = "\<lparr>adminDb = None, rebuildRequests = 0\<rparr>"]
        unauthenticated_request_401
          [where B = plainBuiltins and body = "Some Map.empty" and i = "js ''p1''"
             and now = 5000 and ip = None and w = exampleWorld]
  by (simp add: json_def)

section \<open>Properties of the sitemap\<close>

lemma sitemap_success:
  "sitemap site now (Inr pages) = staticPages site now @ map (pageEntry site) pages"
  by (simp add: sitemap_def)

lemma pageEntry_lastModified:
  "lastModified (pageEntry site page) = asDate (updatedAt page)"
  "updatedAt page = DateObject t \<Longrightarrow> lastModified (pageEntry site page) = Instant t"
  by (simp_all add: pageEntry_def asDate_def)

lemma sitemap_success_urls:
  "map url (sitemap site now (Inr pages))
     = [site, site @ js ''/about'', site @ js ''/privacy'', site @ js ''/terms'',
        site @ js ''/plans'']
       @ map (\<lambda>page. site @ js ''/'' @ slug page) pages"
  by (simp add: sitemap_def staticPages_def pageEntry_def comp_def)

text \<open>
  C3. When the query for the published records succeeds, the sitemap is the five static
  entries followed by one entry for each record, with the date of \<open>updatedAt\<close> when
  that is a \<open>Date\<close> (the lemmas above). When the query
  fails, the sitemap is the entry of the site root alone: the entries of \<open>/about\<close>,
  \<open>/privacy\<close>, \<open>/terms\<close> and \<open>/plans\<close> are missing from it.
\<close>

theorem sitemap_failure_root_only:
  "sitemap site now (Inl e)
     = [\<lparr>url = site, lastModified = now, changeFrequency = ''weekly'', priority = 10\<rparr>]
   \<and> length (sitemap site now (Inl e)) = 1
   \<and> length (staticPages site now) = 5
   \<and> sitemap site now (Inl e) \<noteq> staticPages site now"
  by (simp add: sitemap_def staticPages_def)

end
